theory Spec2Isabelle
  imports Main "HOL-Library.Word"
begin

unbundle bit_operations_syntax

section \<open>Conventions of the embedding\<close>

text \<open>
  The development embeds the license manager (\<^verbatim>\<open>enhanced_license_manager.py\<close>) and the
  device and validity endpoints of \<^verbatim>\<open>license_api_server.py\<close>.

  \<^item> A Python \<^verbatim>\<open>str\<close> held in a table, sent in a request or built from the alphabet is a
    \<open>string\<close> whose characters are code points below 256, so \<open>length\<close> counts code points
    as \<^verbatim>\<open>len\<close> does. The argument of \<^verbatim>\<open>calculate_checksum\<close> is any \<^verbatim>\<open>str\<close>: the list of
    its code points, lone surrogates included. Message literals of the source that contain CJK
    text are written as their UTF-8 bytes.
  \<^item> An exception that a modelled expression can raise is a value of \<open>py_error\<close>.
  \<^item> Clock readings, random numbers and UUIDs are arguments of the functions that read them.
  \<^item> A database table is the list of its rows in insertion order; a statement that the
    source sends is a function on that list. Connection and statement failures of the store
    are not modelled: every statement is taken to execute.
\<close>

datatype py_error = ValueError | IndexError | OverflowError | UnicodeEncodeError

type_synonym byte = "8 word"
type_synonym u32 = "32 word"

section \<open>SHA-256 (\<^verbatim>\<open>hashlib.sha256\<close>, FIPS 180-4)\<close>

text \<open>The 64 round constants (fractional parts of the cube roots of the first 64 primes).\<close>

definition K256 :: "u32 list" where
  "K256 =
   [1116352408, 1899447441, 3049323471, 3921009573, 961987163, 1508970993,
    2453635748, 2870763221, 3624381080, 310598401, 607225278, 1426881987,
    1925078388, 2162078206, 2614888103, 3248222580, 3835390401, 4022224774,
    264347078, 604807628, 770255983, 1249150122, 1555081692, 1996064986,
    2554220882, 2821834349, 2952996808, 3210313671, 3336571891, 3584528711,
    113926993, 338241895, 666307205, 773529912, 1294757372, 1396182291,
    1695183700, 1986661051, 2177026350, 2456956037, 2730485921, 2820302411,
    3259730800, 3345764771, 3516065817, 3600352804, 4094571909, 275423344,
    430227734, 506948616, 659060556, 883997877, 958139571, 1322822218,
    1537002063, 1747873779, 1955562222, 2024104815, 2227730452, 2361852424,
    2428436474, 2756734187, 3204031479, 3329325298]"

definition rotr :: "nat \<Rightarrow> u32 \<Rightarrow> u32" where
  "rotr n x = (drop_bit n x) OR (push_bit (32 - n) x)"

definition ch :: "u32 \<Rightarrow> u32 \<Rightarrow> u32 \<Rightarrow> u32" where
  "ch x y z = (x AND y) XOR (NOT x AND z)"

definition maj :: "u32 \<Rightarrow> u32 \<Rightarrow> u32 \<Rightarrow> u32" where
  "maj x y z = (x AND y) XOR (x AND z) XOR (y AND z)"

definition bsig0 :: "u32 \<Rightarrow> u32" where
  "bsig0 x = rotr 2 x XOR rotr 13 x XOR rotr 22 x"

definition bsig1 :: "u32 \<Rightarrow> u32" where
  "bsig1 x = rotr 6 x XOR rotr 11 x XOR rotr 25 x"

definition ssig0 :: "u32 \<Rightarrow> u32" where
  "ssig0 x = rotr 7 x XOR rotr 18 x XOR drop_bit 3 x"

definition ssig1 :: "u32 \<Rightarrow> u32" where
  "ssig1 x = rotr 17 x XOR rotr 19 x XOR drop_bit 10 x"

type_synonym sha_state = "u32 \<times> u32 \<times> u32 \<times> u32 \<times> u32 \<times> u32 \<times> u32 \<times> u32"

text \<open>The initial hash value (fractional parts of the square roots of the first 8 primes).\<close>

definition H256 :: sha_state where
  "H256 = (1779033703, 3144134277, 1013904242, 2773480762,
           1359893119, 2600822924, 528734635, 1541459225)"

fun sha_round :: "sha_state \<Rightarrow> u32 \<times> u32 \<Rightarrow> sha_state" where
  "sha_round (a, b, c, d, e, f, g, h) (k, w) =
     (let t1 = h + bsig1 e + ch e f g + k + w;
          t2 = bsig0 a + maj a b c
      in (t1 + t2, a, b, c, d + t1, e, f, g))"

fun extend_schedule :: "nat \<Rightarrow> u32 list \<Rightarrow> u32 list" where
  "extend_schedule 0 w = w"
| "extend_schedule (Suc n) w =
     (let t = length w
      in extend_schedule n
           (w @ [ssig1 (w ! (t - 2)) + w ! (t - 7) + ssig0 (w ! (t - 15)) + w ! (t - 16)]))"

definition be_word :: "byte list \<Rightarrow> u32" where
  "be_word bs = foldl (\<lambda>acc b. push_bit 8 acc OR ucast b) 0 bs"

fun chunks :: "nat \<Rightarrow> nat \<Rightarrow> 'a list \<Rightarrow> 'a list list" where
  "chunks 0 sz xs = []"
| "chunks (Suc n) sz xs = take sz xs # chunks n sz (drop sz xs)"

fun add_state :: "sha_state \<Rightarrow> sha_state \<Rightarrow> sha_state" where
  "add_state (a, b, c, d, e, f, g, h) (a', b', c', d', e', f', g', h') =
     (a + a', b + b', c + c', d + d', e + e', f + f', g + g', h + h')"

definition sha_block :: "sha_state \<Rightarrow> byte list \<Rightarrow> sha_state" where
  "sha_block st blk =
     (let w = extend_schedule 48 (map be_word (chunks 16 4 blk))
      in add_state st (foldl sha_round st (zip K256 w)))"

definition sha_pad :: "byte list \<Rightarrow> byte list" where
  "sha_pad m =
     (let l = length m;
          k = (119 - l mod 64) mod 64;
          bits = (word_of_nat (8 * l) :: 64 word)
      in m @ [0x80] @ replicate k 0 @ map (\<lambda>i. ucast (drop_bit (8 * (7 - i)) bits)) [0..<8])"

definition word_bytes :: "u32 \<Rightarrow> byte list" where
  "word_bytes w = [ucast (drop_bit 24 w), ucast (drop_bit 16 w), ucast (drop_bit 8 w), ucast w]"

fun state_bytes :: "sha_state \<Rightarrow> byte list" where
  "state_bytes (a, b, c, d, e, f, g, h) = concat (map word_bytes [a, b, c, d, e, f, g, h])"

definition sha256 :: "byte list \<Rightarrow> byte list" where
  "sha256 m =
     (let p = sha_pad m
      in state_bytes (foldl sha_block H256 (chunks (length p div 64) 64 p)))"

definition hex_digit :: "nat \<Rightarrow> char" where
  "hex_digit n = ''0123456789abcdef'' ! n"

definition hex_byte :: "byte \<Rightarrow> string" where
  "hex_byte b = [hex_digit (unat b div 16), hex_digit (unat b mod 16)]"

text \<open>\<^verbatim>\<open>hashlib.sha256(data).hexdigest()\<close>\<close>

definition hexdigest :: "byte list \<Rightarrow> string" where
  "hexdigest m = concat (map hex_byte (sha256 m))"

section \<open>Python primitives used by the code generator\<close>

text \<open>
  A \<^verbatim>\<open>str\<close> as the list of its code points, each below 1114112; \<open>code_points\<close> reads a
  \<open>string\<close> as such a list.
\<close>

type_synonym py_str = "nat list"

definition code_points :: "string \<Rightarrow> py_str" where
  "code_points s = map of_char s"

text \<open>The surrogate code points, D800 to DFFF.\<close>

definition is_surrogate :: "nat \<Rightarrow> bool" where
  "is_surrogate n = (55296 \<le> n \<and> n \<le> 57343)"

text \<open>
  The UTF-8 bytes of one code point: one to four bytes by its size; a surrogate cannot be
  encoded and raises \<^verbatim>\<open>UnicodeEncodeError\<close>.
\<close>

definition utf8_code_point :: "nat \<Rightarrow> py_error + byte list" where
  "utf8_code_point n =
     (if n < 128 then Inr [word_of_nat n]
      else if n < 2048 then Inr [word_of_nat (192 + n div 64), word_of_nat (128 + n mod 64)]
      else if is_surrogate n then Inl UnicodeEncodeError
      else if n < 65536
      then Inr [word_of_nat (224 + n div 4096), word_of_nat (128 + (n div 64) mod 64),
                word_of_nat (128 + n mod 64)]
      else Inr [word_of_nat (240 + n div 262144), word_of_nat (128 + (n div 4096) mod 64),
                word_of_nat (128 + (n div 64) mod 64), word_of_nat (128 + n mod 64)])"

text \<open>\<^verbatim>\<open>s.encode('utf-8')\<close>: the bytes of the code points in order, or the first error.\<close>

fun utf8_encode :: "py_str \<Rightarrow> py_error + byte list" where
  "utf8_encode [] = Inr []"
| "utf8_encode (n # rest) =
     (case utf8_code_point n of
        Inl e \<Rightarrow> Inl e
      | Inr bs \<Rightarrow>
          (case utf8_encode rest of
             Inl e \<Rightarrow> Inl e
           | Inr bs' \<Rightarrow> Inr (bs @ bs')))"

text \<open>\<^verbatim>\<open>xs[a:b]\<close> for \<open>0 \<le> a \<le> b\<close>; Python clips both ends at the length, as \<open>take\<close> and \<open>drop\<close> do.\<close>

definition py_slice :: "'a list \<Rightarrow> nat \<Rightarrow> nat \<Rightarrow> 'a list" where
  "py_slice xs a b = take (b - a) (drop a xs)"

text \<open>\<^verbatim>\<open>xs[i]\<close>: a negative index counts from the end, an index out of range raises.\<close>

definition py_index :: "'a list \<Rightarrow> int \<Rightarrow> py_error + 'a" where
  "py_index xs i =
     (if 0 \<le> i \<and> i < int (length xs) then Inr (xs ! nat i)
      else if i < 0 \<and> - int (length xs) \<le> i then Inr (xs ! nat (int (length xs) + i))
      else Inl IndexError)"

definition hex_val :: "char \<Rightarrow> nat option" where
  "hex_val c =
     (let n = (of_char c :: nat)
      in if 48 \<le> n \<and> n \<le> 57 then Some (n - 48)
         else if 97 \<le> n \<and> n \<le> 102 then Some (n - 87)
         else if 65 \<le> n \<and> n \<le> 70 then Some (n - 55)
         else None)"

fun hex_fold :: "string \<Rightarrow> int \<Rightarrow> py_error + int" where
  "hex_fold [] acc = Inr acc"
| "hex_fold (c # cs) acc =
     (case hex_val c of
        None \<Rightarrow> Inl ValueError
      | Some d \<Rightarrow> hex_fold cs (acc * 16 + int d))"

text \<open>
  \<^verbatim>\<open>int(s, 16)\<close> on a string of hexadecimal digits; the empty string and any other character
  raise \<^verbatim>\<open>ValueError\<close>. (Python also accepts a sign, a \<^verbatim>\<open>0x\<close> prefix, underscores and
  surrounding blanks; a digest never contains them, and the model rejects them.)
\<close>

definition int_base16 :: "string \<Rightarrow> py_error + int" where
  "int_base16 s = (if s = [] then Inl ValueError else hex_fold s 0)"

section \<open>Code generator\<close>

definition CHARSET :: string where
  "CHARSET = ''ABCDEFGHJKLMNPQRSTUVWXYZ23456789''"

definition CHARSET_LENGTH :: int where
  "CHARSET_LENGTH = int (length CHARSET)"

text \<open>The loop of \<^verbatim>\<open>generate_short_id\<close>: \<open>n\<close> iterations left.\<close>

fun short_id_loop :: "nat \<Rightarrow> int \<Rightarrow> string \<Rightarrow> py_error + string" where
  "short_id_loop 0 combined result = Inr result"
| "short_id_loop (Suc n) combined result =
     (case py_index CHARSET (combined mod CHARSET_LENGTH) of
        Inl e \<Rightarrow> Inl e
      | Inr c \<Rightarrow> short_id_loop n (combined div CHARSET_LENGTH) (c # result))"

text \<open>
  \<^verbatim>\<open>generate_short_id\<close>; \<open>now_ms\<close> is \<^verbatim>\<open>int(time.time() * 1000)\<close> and \<open>uuid_int\<close> is
  \<^verbatim>\<open>uuid.uuid4().int\<close>.
\<close>

definition generate_short_id :: "int \<Rightarrow> int \<Rightarrow> py_error + string" where
  "generate_short_id now_ms uuid_int =
     (let timestamp = now_ms mod (36 ^ 6);
          random_part = uuid_int mod (36 ^ 5);
          combined = timestamp * (36 ^ 5) + random_part
      in short_id_loop 11 combined [])"

text \<open>The loop of \<^verbatim>\<open>calculate_checksum\<close> over the remaining values of \<open>i\<close>.\<close>

fun checksum_loop :: "nat list \<Rightarrow> string \<Rightarrow> string \<Rightarrow> py_error + string" where
  "checksum_loop [] hash_hex checksum = Inr checksum"
| "checksum_loop (i # rest) hash_hex checksum =
     (let start_index = i * 2;
          end_index = start_index + 2;
          hex_pair = py_slice hash_hex start_index end_index
      in case int_base16 hex_pair of
           Inl e \<Rightarrow> Inl e
         | Inr int_value \<Rightarrow>
             (case py_index CHARSET (int_value mod CHARSET_LENGTH) of
                Inl e \<Rightarrow> Inl e
              | Inr c \<Rightarrow> checksum_loop rest hash_hex (checksum @ [c])))"

definition calculate_checksum :: "py_str \<Rightarrow> py_error + string" where
  "calculate_checksum short_id =
     (if length short_id \<noteq> 11 then Inr []
      else (case utf8_encode short_id of
              Inl e \<Rightarrow> Inl e
            | Inr encoded \<Rightarrow> checksum_loop [0..<4] (hexdigest encoded) []))"

definition generate_activation_code :: "int \<Rightarrow> int \<Rightarrow> py_error + string" where
  "generate_activation_code now_ms uuid_int =
     (case generate_short_id now_ms uuid_int of
        Inl e \<Rightarrow> Inl e
      | Inr short_id \<Rightarrow>
          (case calculate_checksum (code_points short_id) of
             Inl e \<Rightarrow> Inl e
           | Inr checksum \<Rightarrow>
               Inr (py_slice short_id 0 5 @ ''-'' @ py_slice short_id 5 10 @ ''-''
                    @ py_slice short_id 10 11 @ checksum)))"

text \<open>De-hyphenation of a rendered code, as a reader of the code does it.\<close>

definition remove_hyphens :: "string \<Rightarrow> string" where
  "remove_hyphens s = filter (\<lambda>c. c \<noteq> CHR ''-'') s"

section \<open>Python string primitives\<close>

text \<open>\<^verbatim>\<open>str.lower\<close> on code points below 256: A-Z and the Latin-1 capitals move up by 32.\<close>

definition lower_char :: "char \<Rightarrow> char" where
  "lower_char c =
     (let n = (of_char c :: nat)
      in if 65 \<le> n \<and> n \<le> 90 then char_of (n + 32)
         else if 192 \<le> n \<and> n \<le> 214 then char_of (n + 32)
         else if 216 \<le> n \<and> n \<le> 222 then char_of (n + 32)
         else c)"

definition lower :: "string \<Rightarrow> string" where
  "lower s = map lower_char s"

text \<open>
  \<^verbatim>\<open>str.upper\<close> on a-z; the source applies it to hexadecimal digits only.
\<close>

definition upper_char :: "char \<Rightarrow> char" where
  "upper_char c =
     (let n = (of_char c :: nat)
      in if 97 \<le> n \<and> n \<le> 122 then char_of (n - 32) else c)"

definition upper :: "string \<Rightarrow> string" where
  "upper s = map upper_char s"

text \<open>\<^verbatim>\<open>str.isspace\<close> on code points below 256.\<close>

definition is_space :: "char \<Rightarrow> bool" where
  "is_space c =
     (let n = (of_char c :: nat)
      in (9 \<le> n \<and> n \<le> 13) \<or> (28 \<le> n \<and> n \<le> 32) \<or> n = 133 \<or> n = 160)"

text \<open>\<^verbatim>\<open>str.strip()\<close>\<close>

definition strip :: "string \<Rightarrow> string" where
  "strip s = rev (dropWhile is_space (rev (dropWhile is_space s)))"

text \<open>\<^verbatim>\<open>str(n)\<close> for an integer.\<close>

function dec_digits :: "nat \<Rightarrow> string" where
  "dec_digits n =
     (if n < 10 then [char_of (48 + n)]
      else dec_digits (n div 10) @ [char_of (48 + n mod 10)])"
  by pat_completeness auto
termination
  by (relation "measure id") auto

definition py_str_int :: "int \<Rightarrow> string" where
  "py_str_int i = (if i < 0 then CHR ''-'' # dec_digits (nat (- i)) else dec_digits (nat i))"

text \<open>A missing or empty string is falsy.\<close>

definition truthy :: "string option \<Rightarrow> bool" where
  "truthy v = (case v of None \<Rightarrow> False | Some s \<Rightarrow> s \<noteq> [])"

section \<open>Email syntax (\<^verbatim>\<open>is_valid_email\<close>)\<close>

definition is_alpha :: "char \<Rightarrow> bool" where
  "is_alpha c =
     (let n = (of_char c :: nat) in (65 \<le> n \<and> n \<le> 90) \<or> (97 \<le> n \<and> n \<le> 122))"

definition is_digit :: "char \<Rightarrow> bool" where
  "is_digit c = (let n = (of_char c :: nat) in 48 \<le> n \<and> n \<le> 57)"

definition is_local_char :: "char \<Rightarrow> bool" where
  "is_local_char c = (is_alpha c \<or> is_digit c \<or> c \<in> set ''._%+-'')"

definition is_domain_char :: "char \<Rightarrow> bool" where
  "is_domain_char c = (is_alpha c \<or> is_digit c \<or> c \<in> set ''.-'')"

text \<open>
  \<^verbatim>\<open>re.match(r'^[a-zA-Z0-9._%+-]+@[a-zA-Z0-9.-]+\.[a-zA-Z]{2,}$', email)\<close>. The local part is
  what precedes the first \<^verbatim>\<open>@\<close>, the top-level domain what follows the last dot; \<^verbatim>\<open>$\<close> also
  matches before one final newline.
\<close>

definition is_valid_email :: "string \<Rightarrow> bool" where
  "is_valid_email s =
     (let body = (if s \<noteq> [] \<and> last s = CHR 0x0A then butlast s else s);
          local_part = takeWhile (\<lambda>c. c \<noteq> CHR ''@'') body;
          rest = drop (length local_part + 1) body;
          tld = rev (takeWhile (\<lambda>c. c \<noteq> CHR ''.'') (rev rest));
          domain = take (length rest - length tld - 1) rest
      in length local_part < length body \<and> local_part \<noteq> [] \<and> list_all is_local_char local_part
         \<and> length tld < length rest \<and> domain \<noteq> [] \<and> list_all is_domain_char domain
         \<and> 2 \<le> length tld \<and> list_all is_alpha tld)"

section \<open>Data model: the four tables\<close>

text \<open>
  An instant is a number of microseconds since 0001-01-01T00:00:00 UTC, the least
  \<^verbatim>\<open>datetime\<close>. The successive readings of the clock within one call of verification or of
  a device endpoint are one instant; issuance takes its two readings as two arguments.
\<close>

type_synonym instant = int

record license =
  l_license_id :: string
  l_activation_code :: string
  l_email :: string
  l_plan :: string
  l_device_limit :: int
  l_issued_at :: instant
  l_valid_until :: "instant option"
  l_user_hint :: "string option"
  l_status :: string

record device_activation =
  da_license_id :: string
  da_device_id :: string
  da_device_name :: "string option"
  da_ip_address :: "string option"
  da_last_seen_at :: instant
  da_is_active :: bool

text \<open>Only the columns that the source writes.\<close>

record revoked_license =
  rl_license_id :: string
  rl_reason :: string
  rl_revoked_by :: "string option"

text \<open>\<open>ah_details\<close> is the JSON object of the row, as its key-value pairs.\<close>

record activation_history_entry =
  ah_license_id :: string
  ah_action :: string
  ah_device_id :: "string option"
  ah_ip_address :: "string option"
  ah_details :: "(string \<times> string option) list"

record db =
  licenses :: "license list"
  device_activations :: "device_activation list"
  revoked_licenses :: "revoked_license list"
  activation_history :: "activation_history_entry list"

subsection \<open>Statements on \<^verbatim>\<open>device_activations\<close>\<close>

definition device_match :: "string \<Rightarrow> string \<Rightarrow> device_activation \<Rightarrow> bool" where
  "device_match lid did r = (da_license_id r = lid \<and> da_device_id r = did)"

text \<open>\<^verbatim>\<open>SELECT ... WHERE license_id = %s AND device_id = %s\<close>, then \<^verbatim>\<open>fetchone()\<close>\<close>

definition select_device :: "device_activation list \<Rightarrow> string \<Rightarrow> string \<Rightarrow> device_activation option" where
  "select_device rows lid did = find (device_match lid did) rows"

text \<open>\<^verbatim>\<open>SELECT COUNT(*) FROM device_activations WHERE license_id = %s AND is_active = 1\<close>\<close>

definition count_active :: "device_activation list \<Rightarrow> string \<Rightarrow> int" where
  "count_active rows lid = int (length (filter (\<lambda>r. da_license_id r = lid \<and> da_is_active r) rows))"

text \<open>\<^verbatim>\<open>UPDATE device_activations SET is_active = %s WHERE license_id = %s AND device_id = %s\<close>\<close>

definition set_is_active :: "device_activation list \<Rightarrow> string \<Rightarrow> string \<Rightarrow> bool \<Rightarrow> device_activation list" where
  "set_is_active rows lid did b =
     map (\<lambda>r. if device_match lid did r then r\<lparr>da_is_active := b\<rparr> else r) rows"

text \<open>
  \<^verbatim>\<open>cursor.rowcount\<close> after that update: the rows whose value changed (the connector's
  default, without the found-rows flag).
\<close>

definition set_is_active_rowcount :: "device_activation list \<Rightarrow> string \<Rightarrow> string \<Rightarrow> bool \<Rightarrow> nat" where
  "set_is_active_rowcount rows lid did b =
     length (filter (\<lambda>r. device_match lid did r \<and> da_is_active r \<noteq> b) rows)"

text \<open>\<^verbatim>\<open>UPDATE device_activations SET last_seen_at = %s, device_name = %s, ip_address = %s WHERE ...\<close>\<close>

definition touch_device ::
  "device_activation list \<Rightarrow> string \<Rightarrow> string \<Rightarrow> instant \<Rightarrow> string option \<Rightarrow> string option
   \<Rightarrow> device_activation list" where
  "touch_device rows lid did now device_name ip_address =
     map (\<lambda>r. if device_match lid did r
               then r\<lparr>da_last_seen_at := now, da_device_name := device_name,
                      da_ip_address := ip_address\<rparr>
               else r) rows"

text \<open>\<^verbatim>\<open>DELETE FROM device_activations WHERE license_id = %s AND device_id = %s\<close>\<close>

definition delete_device_rows :: "device_activation list \<Rightarrow> string \<Rightarrow> string \<Rightarrow> device_activation list" where
  "delete_device_rows rows lid did = filter (\<lambda>r. \<not> device_match lid did r) rows"

definition history_entry ::
  "string \<Rightarrow> string \<Rightarrow> string option \<Rightarrow> string option \<Rightarrow> (string \<times> string option) list
   \<Rightarrow> activation_history_entry" where
  "history_entry lid act did ip det =
     \<lparr>ah_license_id = lid, ah_action = act, ah_device_id = did, ah_ip_address = ip,
      ah_details = det\<rparr>"

section \<open>Verification and activation (\<^verbatim>\<open>verify_license_with_email\<close>)\<close>

text \<open>UTF-8 bytes of the source literal; in English: \<^emph>\<open>activation code does not exist or is disabled\<close>.\<close>

definition err_code_not_found :: string where
  "err_code_not_found =
   [CHR 0xE6, CHR 0xBF, CHR 0x80, CHR 0xE6, CHR 0xB4, CHR 0xBB, CHR 0xE7, CHR 0xA0, CHR 0x81,
    CHR 0xE4, CHR 0xB8, CHR 0x8D, CHR 0xE5, CHR 0xAD, CHR 0x98, CHR 0xE5, CHR 0x9C, CHR 0xA8,
    CHR 0xE6, CHR 0x88, CHR 0x96, CHR 0xE5, CHR 0xB7, CHR 0xB2, CHR 0xE5, CHR 0x81, CHR 0x9C,
    CHR 0xE7, CHR 0x94, CHR 0xA8]"

text \<open>UTF-8 bytes of the source literal; in English: \<^emph>\<open>email does not match the activation code\<close>.\<close>

definition err_email_mismatch :: string where
  "err_email_mismatch =
   [CHR 0xE9, CHR 0x82, CHR 0xAE, CHR 0xE7, CHR 0xAE, CHR 0xB1, CHR 0xE4, CHR 0xB8, CHR 0x8E,
    CHR 0xE6, CHR 0xBF, CHR 0x80, CHR 0xE6, CHR 0xB4, CHR 0xBB, CHR 0xE7, CHR 0xA0, CHR 0x81,
    CHR 0xE4, CHR 0xB8, CHR 0x8D, CHR 0xE5, CHR 0x8C, CHR 0xB9, CHR 0xE9, CHR 0x85, CHR 0x8D]"

text \<open>UTF-8 bytes of the source literal; in English: \<^emph>\<open>activation code has expired\<close>.\<close>

definition err_expired :: string where
  "err_expired =
   [CHR 0xE6, CHR 0xBF, CHR 0x80, CHR 0xE6, CHR 0xB4, CHR 0xBB, CHR 0xE7, CHR 0xA0, CHR 0x81,
    CHR 0xE5, CHR 0xB7, CHR 0xB2, CHR 0xE8, CHR 0xBF, CHR 0x87, CHR 0xE6, CHR 0x9C, CHR 0x9F]"

text \<open>UTF-8 bytes of the source literal; in English: \<^emph>\<open>device has been suspended, ask the administrator to restore it\<close>.\<close>

definition err_device_suspended :: string where
  "err_device_suspended =
   [CHR 0xE8, CHR 0xAE, CHR 0xBE, CHR 0xE5, CHR 0xA4, CHR 0x87, CHR 0xE5, CHR 0xB7, CHR 0xB2,
    CHR 0xE8, CHR 0xA2, CHR 0xAB, CHR 0xE5, CHR 0x81, CHR 0x9C, CHR 0xE7, CHR 0x94, CHR 0xA8,
    CHR 0xEF, CHR 0xBC, CHR 0x8C, CHR 0xE8, CHR 0xAF, CHR 0xB7, CHR 0xE8, CHR 0x81, CHR 0x94,
    CHR 0xE7, CHR 0xB3, CHR 0xBB, CHR 0xE7, CHR 0xAE, CHR 0xA1, CHR 0xE7, CHR 0x90, CHR 0x86,
    CHR 0xE5, CHR 0x91, CHR 0x98, CHR 0xE6, CHR 0x81, CHR 0xA2, CHR 0xE5, CHR 0xA4, CHR 0x8D]"

text \<open>UTF-8 bytes of the source literal; in English: \<^emph>\<open>number of devices has reached the limit (\<close>.\<close>

definition err_quota_prefix :: string where
  "err_quota_prefix =
   [CHR 0xE8, CHR 0xAE, CHR 0xBE, CHR 0xE5, CHR 0xA4, CHR 0x87, CHR 0xE6, CHR 0x95, CHR 0xB0,
    CHR 0xE9, CHR 0x87, CHR 0x8F, CHR 0xE5, CHR 0xB7, CHR 0xB2, CHR 0xE8, CHR 0xBE, CHR 0xBE,
    CHR 0xE4, CHR 0xB8, CHR 0x8A, CHR 0xE9, CHR 0x99, CHR 0x90, CHR ''('']"

text \<open>UTF-8 bytes of the source literal; in English: \<^emph>\<open>devices)\<close>.\<close>

definition err_quota_suffix :: string where
  "err_quota_suffix =
   [CHR 0xE5, CHR 0x8F, CHR 0xB0, CHR '')'']"

text \<open>UTF-8 bytes of the source literal; in English: \<^emph>\<open>device already activated\<close>.\<close>

definition msg_device_active :: string where
  "msg_device_active =
   [CHR 0xE8, CHR 0xAE, CHR 0xBE, CHR 0xE5, CHR 0xA4, CHR 0x87, CHR 0xE5, CHR 0xB7, CHR 0xB2,
    CHR 0xE6, CHR 0xBF, CHR 0x80, CHR 0xE6, CHR 0xB4, CHR 0xBB]"

text \<open>The f-string of the quota message, with the limit in decimal.\<close>

definition err_quota_exceeded :: "int \<Rightarrow> string" where
  "err_quota_exceeded limit = err_quota_prefix @ py_str_int limit @ err_quota_suffix"

record verify_ok =
  v_license_id :: string
  v_plan :: string
  v_device_cap :: int
  v_issued_at :: instant
  v_valid_until :: "instant option"
  v_user_hint :: "string option"
  v_message :: "string option"

text \<open>The returned dictionary: \<^verbatim>\<open>{"valid": False, "error": ...}\<close> or \<^verbatim>\<open>{"valid": True, ...}\<close>.\<close>

datatype verify_result = Invalid string | Valid verify_ok

definition verify_success :: "license \<Rightarrow> string option \<Rightarrow> verify_result" where
  "verify_success result msg =
     Valid \<lparr>v_license_id = l_license_id result, v_plan = l_plan result,
            v_device_cap = l_device_limit result, v_issued_at = l_issued_at result,
            v_valid_until = l_valid_until result, v_user_hint = l_user_hint result,
            v_message = msg\<rparr>"

text \<open>\<^verbatim>\<open>SELECT ... FROM licenses WHERE activation_code = %s AND status = 'active'\<close>, \<^verbatim>\<open>fetchone()\<close>\<close>

definition select_active_license :: "license list \<Rightarrow> string \<Rightarrow> license option" where
  "select_active_license rows code =
     find (\<lambda>l. l_activation_code l = code \<and> l_status l = ''active'') rows"

definition expired :: "license \<Rightarrow> instant \<Rightarrow> bool" where
  "expired result now_utc = (case l_valid_until result of None \<Rightarrow> False | Some v \<Rightarrow> now_utc > v)"

text \<open>The branch for a supplied device id (\<^verbatim>\<open>if device_id:\<close>).\<close>

definition activate_or_heartbeat ::
  "db \<Rightarrow> license \<Rightarrow> string \<Rightarrow> string option \<Rightarrow> string option \<Rightarrow> instant \<Rightarrow> verify_result \<times> db" where
  "activate_or_heartbeat d result device_id device_name ip_address now =
     (let lid = l_license_id result
      in case select_device (device_activations d) lid device_id of
           Some existing_device \<Rightarrow>
             if da_is_active existing_device
             then (verify_success result (Some msg_device_active),
                   d\<lparr>device_activations :=
                        touch_device (device_activations d) lid device_id now device_name ip_address,
                      activation_history := activation_history d @
                        [history_entry lid ''heartbeat'' (Some device_id) ip_address
                           [(''device_name'', device_name)]]\<rparr>)
             else (Invalid err_device_suspended, d)
         | None \<Rightarrow>
             (let current_devices = count_active (device_activations d) lid
              in if current_devices \<ge> l_device_limit result
                 then (Invalid (err_quota_exceeded (l_device_limit result)), d)
                 else (verify_success result None,
                       d\<lparr>device_activations := device_activations d @
                            [\<lparr>da_license_id = lid, da_device_id = device_id,
                              da_device_name = device_name, da_ip_address = ip_address,
                              da_last_seen_at = now, da_is_active = True\<rparr>],
                          activation_history := activation_history d @
                            [history_entry lid ''activate'' (Some device_id) ip_address
                               [(''device_name'', device_name)]]\<rparr>)))"

definition verify_license_with_email ::
  "db \<Rightarrow> string \<Rightarrow> string \<Rightarrow> string option \<Rightarrow> string option \<Rightarrow> string option \<Rightarrow> instant
   \<Rightarrow> verify_result \<times> db" where
  "verify_license_with_email d activation_code email device_id device_name ip_address now =
     (case select_active_license (licenses d) activation_code of
        None \<Rightarrow> (Invalid err_code_not_found, d)
      | Some result \<Rightarrow>
          if lower (l_email result) \<noteq> lower email then (Invalid err_email_mismatch, d)
          else if expired result now then (Invalid err_expired, d)
          else (case device_id of
                  None \<Rightarrow> (verify_success result None, d)
                | Some did \<Rightarrow>
                    if did = [] then (verify_success result None, d)
                    else activate_or_heartbeat d result did device_name ip_address now))"

section \<open>Device operations of the manager\<close>

text \<open>\<^verbatim>\<open>deactivate_device\<close>: suspends a device; \<open>False\<close> when no row exists.\<close>

definition deactivate_device :: "db \<Rightarrow> string \<Rightarrow> string \<Rightarrow> string \<Rightarrow> bool \<times> db" where
  "deactivate_device d license_id device_id reason =
     (case select_device (device_activations d) license_id device_id of
        None \<Rightarrow> (False, d)
      | Some _ \<Rightarrow>
          (True,
           d\<lparr>device_activations := set_is_active (device_activations d) license_id device_id False,
             activation_history := activation_history d @
               [history_entry license_id ''deactivate'' (Some device_id) None
                  [(''reason'', Some reason), (''deactivated_by'', Some ''admin'')]]\<rparr>))"

text \<open>\<^verbatim>\<open>activate_device\<close>: restores a device; \<open>False\<close> when no row exists.\<close>

definition activate_device :: "db \<Rightarrow> string \<Rightarrow> string \<Rightarrow> string \<Rightarrow> bool \<times> db" where
  "activate_device d license_id device_id reason =
     (case select_device (device_activations d) license_id device_id of
        None \<Rightarrow> (False, d)
      | Some _ \<Rightarrow>
          (True,
           d\<lparr>device_activations := set_is_active (device_activations d) license_id device_id True,
             activation_history := activation_history d @
               [history_entry license_id ''renew'' (Some device_id) None
                  [(''reason'', Some reason), (''activated_by'', Some ''admin'')]]\<rparr>))"

text \<open>\<^verbatim>\<open>cancel_device_activation\<close>: deletes the row of an active device.\<close>

definition cancel_device_activation :: "db \<Rightarrow> string \<Rightarrow> string \<Rightarrow> string \<Rightarrow> bool \<times> db" where
  "cancel_device_activation d license_id device_id reason =
     (case find (\<lambda>r. device_match license_id device_id r \<and> da_is_active r) (device_activations d) of
        None \<Rightarrow> (False, d)
      | Some _ \<Rightarrow>
          (True,
           d\<lparr>device_activations := delete_device_rows (device_activations d) license_id device_id,
             activation_history := activation_history d @
               [history_entry license_id ''cancel'' (Some device_id) None
                  [(''reason'', Some reason), (''canceled_by'', Some ''user'')]]\<rparr>))"

section \<open>Revocation (\<^verbatim>\<open>revoke_license\<close>)\<close>

text \<open>
  Modelled from the spec: the declaration of the \<^verbatim>\<open>revoked_licenses\<close> table, which is not
  part of the source; its unique key is \<^verbatim>\<open>license_id\<close>. The statement is
  \<^verbatim>\<open>INSERT INTO revoked_licenses ... ON DUPLICATE KEY UPDATE reason = ..., revoked_by = ...\<close>.
\<close>

definition upsert_revoked ::
  "revoked_license list \<Rightarrow> string \<Rightarrow> string \<Rightarrow> string option \<Rightarrow> revoked_license list" where
  "upsert_revoked rows lid reason revoked_by =
     (if list_ex (\<lambda>r. rl_license_id r = lid) rows
      then map (\<lambda>r. if rl_license_id r = lid
                     then r\<lparr>rl_reason := reason, rl_revoked_by := revoked_by\<rparr> else r) rows
      else rows @ [\<lparr>rl_license_id = lid, rl_reason = reason, rl_revoked_by = revoked_by\<rparr>])"

text \<open>\<^verbatim>\<open>UPDATE licenses SET status = %s WHERE license_id = %s\<close>\<close>

definition set_status :: "license list \<Rightarrow> string \<Rightarrow> string \<Rightarrow> license list" where
  "set_status rows lid st = map (\<lambda>l. if l_license_id l = lid then l\<lparr>l_status := st\<rparr> else l) rows"

definition revoke_license :: "db \<Rightarrow> string \<Rightarrow> string \<Rightarrow> string option \<Rightarrow> bool \<times> db" where
  "revoke_license d license_id reason revoked_by =
     (if \<not> list_ex (\<lambda>l. l_license_id l = license_id) (licenses d) then (False, d)
      else (True,
            d\<lparr>revoked_licenses := upsert_revoked (revoked_licenses d) license_id reason revoked_by,
              licenses := set_status (licenses d) license_id ''revoked'',
              activation_history := activation_history d @
                [history_entry license_id ''revoke'' None None
                   [(''reason'', Some reason), (''revoked_by'', revoked_by)]]\<rparr>))"

section \<open>Endpoints of the API server\<close>

text \<open>
  A request body is the JSON object as its key-value pairs, all values strings. A response is
  the status code with the \<^verbatim>\<open>success\<close>, \<^verbatim>\<open>message\<close> and \<^verbatim>\<open>code\<close> members of the body, and for
  a verified license its \<^verbatim>\<open>key\<close>, \<^verbatim>\<open>type\<close> and \<^verbatim>\<open>expiresAt\<close>; the \<^verbatim>\<open>timestamp\<close> member is left out.
\<close>

type_synonym json_object = "(string \<times> string) list"

definition json_get :: "json_object \<Rightarrow> string \<Rightarrow> string option" where
  "json_get data k = map_of data k"

definition json_get_default :: "json_object \<Rightarrow> string \<Rightarrow> string \<Rightarrow> string" where
  "json_get_default data k dflt = (case map_of data k of None \<Rightarrow> dflt | Some v \<Rightarrow> v)"

record api_response =
  r_status :: nat
  r_success :: bool
  r_message :: "string option"
  r_code :: "string option"
  r_license :: "(string \<times> string \<times> instant option) option"

definition respond :: "nat \<Rightarrow> bool \<Rightarrow> string option \<Rightarrow> string option \<Rightarrow> api_response" where
  "respond st ok msg cd =
     \<lparr>r_status = st, r_success = ok, r_message = msg, r_code = cd, r_license = None\<rparr>"

text \<open>UTF-8 bytes of the source literal; in English: \<^emph>\<open>request body is empty\<close>.\<close>

definition msg_empty_request :: string where
  "msg_empty_request =
   [CHR 0xE8, CHR 0xAF, CHR 0xB7, CHR 0xE6, CHR 0xB1, CHR 0x82, CHR 0xE6, CHR 0x95, CHR 0xB0,
    CHR 0xE6, CHR 0x8D, CHR 0xAE, CHR 0xE4, CHR 0xB8, CHR 0xBA, CHR 0xE7, CHR 0xA9, CHR 0xBA]"

text \<open>UTF-8 bytes of the source literal; in English: \<^emph>\<open>activation code must not be empty\<close>.\<close>

definition msg_missing_license :: string where
  "msg_missing_license =
   [CHR 0xE6, CHR 0xBF, CHR 0x80, CHR 0xE6, CHR 0xB4, CHR 0xBB, CHR 0xE7, CHR 0xA0, CHR 0x81,
    CHR 0xE4, CHR 0xB8, CHR 0x8D, CHR 0xE8, CHR 0x83, CHR 0xBD, CHR 0xE4, CHR 0xB8, CHR 0xBA,
    CHR 0xE7, CHR 0xA9, CHR 0xBA]"

text \<open>UTF-8 bytes of the source literal; in English: \<^emph>\<open>email must not be empty\<close>.\<close>

definition msg_missing_email :: string where
  "msg_missing_email =
   [CHR 0xE9, CHR 0x82, CHR 0xAE, CHR 0xE7, CHR 0xAE, CHR 0xB1, CHR 0xE4, CHR 0xB8, CHR 0x8D,
    CHR 0xE8, CHR 0x83, CHR 0xBD, CHR 0xE4, CHR 0xB8, CHR 0xBA, CHR 0xE7, CHR 0xA9, CHR 0xBA]"

text \<open>UTF-8 bytes of the source literal; in English: \<^emph>\<open>device id must not be empty, please update\<close>.\<close>

definition msg_missing_device_id :: string where
  "msg_missing_device_id =
   [CHR 0xE8, CHR 0xAE, CHR 0xBE, CHR 0xE5, CHR 0xA4, CHR 0x87, CHR ''I'', CHR ''D'', CHR 0xE4,
    CHR 0xB8, CHR 0x8D, CHR 0xE8, CHR 0x83, CHR 0xBD, CHR 0xE4, CHR 0xB8, CHR 0xBA, CHR 0xE7,
    CHR 0xA9, CHR 0xBA, CHR 0xEF, CHR 0xBC, CHR 0x8C, CHR 0xE8, CHR 0xAF, CHR 0xB7, CHR 0xE6,
    CHR 0x9B, CHR 0xB4, CHR 0xE6, CHR 0x96, CHR 0xB0, CHR 0xE5, CHR 0x88, CHR 0xB0, CHR 0xE6,
    CHR 0x9C, CHR 0x80, CHR 0xE6, CHR 0x96, CHR 0xB0, CHR 0xE7, CHR 0x89, CHR 0x88, CHR 0xE6,
    CHR 0x9C, CHR 0xAC]"

text \<open>UTF-8 bytes of the source literal; in English: \<^emph>\<open>license verified\<close>.\<close>

definition msg_verify_ok :: string where
  "msg_verify_ok =
   [CHR 0xE8, CHR 0xAE, CHR 0xB8, CHR 0xE5, CHR 0x8F, CHR 0xAF, CHR 0xE8, CHR 0xAF, CHR 0x81,
    CHR 0xE9, CHR 0xAA, CHR 0x8C, CHR 0xE8, CHR 0xAF, CHR 0x81, CHR 0xE6, CHR 0x88, CHR 0x90,
    CHR 0xE5, CHR 0x8A, CHR 0x9F]"

text \<open>UTF-8 bytes of the source literal; in English: \<^emph>\<open>API key invalid\<close>.\<close>

definition msg_invalid_api_key :: string where
  "msg_invalid_api_key =
   [CHR ''A'', CHR ''P'', CHR ''I'', CHR 0xE5, CHR 0xAF, CHR 0x86, CHR 0xE9, CHR 0x92,
    CHR 0xA5, CHR 0xE6, CHR 0x97, CHR 0xA0, CHR 0xE6, CHR 0x95, CHR 0x88]"

text \<open>UTF-8 bytes of the source literal; in English: \<^emph>\<open>required parameter missing\<close>.\<close>

definition msg_missing_params :: string where
  "msg_missing_params =
   [CHR 0xE7, CHR 0xBC, CHR 0xBA, CHR 0xE5, CHR 0xB0, CHR 0x91, CHR 0xE5, CHR 0xBF, CHR 0x85,
    CHR 0xE8, CHR 0xA6, CHR 0x81, CHR 0xE5, CHR 0x8F, CHR 0x82, CHR 0xE6, CHR 0x95, CHR 0xB0]"

text \<open>UTF-8 bytes of the source literal; in English: \<^emph>\<open>device does not exist\<close>.\<close>

definition msg_device_not_found :: string where
  "msg_device_not_found =
   [CHR 0xE8, CHR 0xAE, CHR 0xBE, CHR 0xE5, CHR 0xA4, CHR 0x87, CHR 0xE4, CHR 0xB8, CHR 0x8D,
    CHR 0xE5, CHR 0xAD, CHR 0x98, CHR 0xE5, CHR 0x9C, CHR 0xA8]"

text \<open>UTF-8 bytes of the source literal; in English: \<^emph>\<open>device suspended\<close>.\<close>

definition msg_device_suspended :: string where
  "msg_device_suspended =
   [CHR 0xE8, CHR 0xAE, CHR 0xBE, CHR 0xE5, CHR 0xA4, CHR 0x87, CHR 0xE5, CHR 0xB7, CHR 0xB2,
    CHR 0xE5, CHR 0x81, CHR 0x9C, CHR 0xE7, CHR 0x94, CHR 0xA8]"

text \<open>UTF-8 bytes of the source literal; in English: \<^emph>\<open>suspending the device failed\<close>.\<close>

definition msg_suspend_failed :: string where
  "msg_suspend_failed =
   [CHR 0xE8, CHR 0xAE, CHR 0xBE, CHR 0xE5, CHR 0xA4, CHR 0x87, CHR 0xE5, CHR 0x81, CHR 0x9C,
    CHR 0xE7, CHR 0x94, CHR 0xA8, CHR 0xE5, CHR 0xA4, CHR 0xB1, CHR 0xE8, CHR 0xB4, CHR 0xA5]"

text \<open>UTF-8 bytes of the source literal; in English: \<^emph>\<open>device restored\<close>.\<close>

definition msg_device_restored :: string where
  "msg_device_restored =
   [CHR 0xE8, CHR 0xAE, CHR 0xBE, CHR 0xE5, CHR 0xA4, CHR 0x87, CHR 0xE5, CHR 0xB7, CHR 0xB2,
    CHR 0xE6, CHR 0x81, CHR 0xA2, CHR 0xE5, CHR 0xA4, CHR 0x8D]"

text \<open>UTF-8 bytes of the source literal; in English: \<^emph>\<open>restoring the device failed\<close>.\<close>

definition msg_restore_failed :: string where
  "msg_restore_failed =
   [CHR 0xE8, CHR 0xAE, CHR 0xBE, CHR 0xE5, CHR 0xA4, CHR 0x87, CHR 0xE6, CHR 0x81, CHR 0xA2,
    CHR 0xE5, CHR 0xA4, CHR 0x8D, CHR 0xE5, CHR 0xA4, CHR 0xB1, CHR 0xE8, CHR 0xB4, CHR 0xA5]"

text \<open>UTF-8 bytes of the source literal; in English: \<^emph>\<open>device deleted\<close>.\<close>

definition msg_device_deleted :: string where
  "msg_device_deleted =
   [CHR 0xE8, CHR 0xAE, CHR 0xBE, CHR 0xE5, CHR 0xA4, CHR 0x87, CHR 0xE5, CHR 0xB7, CHR 0xB2,
    CHR 0xE5, CHR 0x88, CHR 0xA0, CHR 0xE9, CHR 0x99, CHR 0xA4]"

text \<open>UTF-8 bytes of the source literal; in English: \<^emph>\<open>deleting the device failed\<close>.\<close>

definition msg_delete_failed :: string where
  "msg_delete_failed =
   [CHR 0xE8, CHR 0xAE, CHR 0xBE, CHR 0xE5, CHR 0xA4, CHR 0x87, CHR 0xE5, CHR 0x88, CHR 0xA0,
    CHR 0xE9, CHR 0x99, CHR 0xA4, CHR 0xE5, CHR 0xA4, CHR 0xB1, CHR 0xE8, CHR 0xB4, CHR 0xA5]"

text \<open>UTF-8 bytes of the source literal; in English: \<^emph>\<open>license_id missing\<close>.\<close>

definition msg_missing_license_id :: string where
  "msg_missing_license_id =
   [CHR 0xE7, CHR 0xBC, CHR 0xBA, CHR 0xE5, CHR 0xB0, CHR 0x91, CHR '' '', CHR ''l'',
    CHR ''i'', CHR ''c'', CHR ''e'', CHR ''n'', CHR ''s'', CHR ''e'', CHR ''_'', CHR ''i'',
    CHR ''d'']"

text \<open>UTF-8 bytes of the source literal; in English: \<^emph>\<open>suspended by user\<close>.\<close>

definition reason_user_suspend :: string where
  "reason_user_suspend =
   [CHR 0xE7, CHR 0x94, CHR 0xA8, CHR 0xE6, CHR 0x88, CHR 0xB7, CHR 0xE5, CHR 0x81, CHR 0x9C,
    CHR 0xE7, CHR 0x94, CHR 0xA8]"

text \<open>UTF-8 bytes of the source literal; in English: \<^emph>\<open>restored by user\<close>.\<close>

definition reason_user_restore :: string where
  "reason_user_restore =
   [CHR 0xE7, CHR 0x94, CHR 0xA8, CHR 0xE6, CHR 0x88, CHR 0xB7, CHR 0xE6, CHR 0x81, CHR 0xA2,
    CHR 0xE5, CHR 0xA4, CHR 0x8D]"

text \<open>UTF-8 bytes of the source literal; in English: \<^emph>\<open>deleted by user\<close>.\<close>

definition reason_user_delete :: string where
  "reason_user_delete =
   [CHR 0xE7, CHR 0x94, CHR 0xA8, CHR 0xE6, CHR 0x88, CHR 0xB7, CHR 0xE5, CHR 0x88, CHR 0xA0,
    CHR 0xE9, CHR 0x99, CHR 0xA4]"

text \<open>\<^verbatim>\<open>POST /api/verify-license-3\<close>; \<open>api_key_ok\<close> is the outcome of the key check.\<close>

definition verify_license ::
  "db \<Rightarrow> bool \<Rightarrow> json_object \<Rightarrow> string option \<Rightarrow> instant \<Rightarrow> api_response \<times> db" where
  "verify_license d api_key_ok data remote_addr now =
     (if \<not> api_key_ok
      then (respond 401 False (Some msg_invalid_api_key) (Some ''INVALID_API_KEY''), d)
      else if data = []
      then (respond 400 False (Some msg_empty_request) (Some ''INVALID_REQUEST''), d)
      else
        (let license_code = strip (json_get_default data ''license'' []);
             email = strip (json_get_default data ''email'' []);
             app_version = json_get_default data ''appVersion'' ''1.0.0'';
             platform = json_get_default data ''platform'' ''macOS'';
             device_name = json_get_default data ''device_name'' (platform @ '' '' @ app_version);
             device_id = strip (json_get_default data ''device_id'' []);
             client_ip = (if truthy (json_get data ''ip_address'')
                          then json_get data ''ip_address'' else remote_addr)
         in if license_code = []
            then (respond 400 False (Some msg_missing_license) (Some ''MISSING_LICENSE''), d)
            else if email = []
            then (respond 400 False (Some msg_missing_email) (Some ''MISSING_EMAIL''), d)
            else if device_id = []
            then (respond 400 False (Some msg_missing_device_id) (Some ''MISSING_DEVICE_ID''), d)
            else
              (case verify_license_with_email d license_code email (Some device_id)
                      (Some device_name) client_ip now of
                 (Valid v, d') \<Rightarrow>
                   (\<lparr>r_status = 200, r_success = True, r_message = Some msg_verify_ok,
                     r_code = Some ''SUCCESS'',
                     r_license = Some (v_license_id v, v_plan v, v_valid_until v)\<rparr>, d')
               | (Invalid e, d') \<Rightarrow>
                   (respond 400 False (Some e) (Some ''INVALID_LICENSE''), d'))))"

text \<open>
  \<^verbatim>\<open>POST /api/suspend-device\<close>, \<^verbatim>\<open>/api/restore-device\<close> and \<^verbatim>\<open>/api/delete-device\<close>: the
  license is verified without a device id, then the row is changed. A return before the
  commit leaves the tables as they were.
\<close>

definition suspend_device :: "db \<Rightarrow> json_object \<Rightarrow> instant \<Rightarrow> api_response \<times> db" where
  "suspend_device d data now =
     (let activation_code = json_get data ''activation_code'';
          email = json_get data ''email'';
          device_id = json_get data ''device_id'';
          reason = json_get_default data ''reason'' reason_user_suspend
      in if \<not> truthy activation_code \<or> \<not> truthy email \<or> \<not> truthy device_id
         then (respond 400 False (Some msg_missing_params) None, d)
         else
           (case verify_license_with_email d (the activation_code) (the email) None None None now of
              (Invalid e, _) \<Rightarrow> (respond 400 False (Some e) None, d)
            | (Valid v, _) \<Rightarrow>
                (let license_id = v_license_id v; did = the device_id
                 in case select_device (device_activations d) license_id did of
                      None \<Rightarrow> (respond 404 False (Some msg_device_not_found) None, d)
                    | Some _ \<Rightarrow>
                        if set_is_active_rowcount (device_activations d) license_id did False = 0
                        then (respond 500 False (Some msg_suspend_failed) None, d)
                        else (respond 200 True (Some msg_device_suspended) None,
                              d\<lparr>device_activations :=
                                   set_is_active (device_activations d) license_id did False,
                                 activation_history := activation_history d @
                                   [history_entry license_id ''suspend'' (Some did) None
                                      [(''reason'', Some reason),
                                       (''suspended_by'', Some ''user'')]]\<rparr>))))"

definition restore_device :: "db \<Rightarrow> json_object \<Rightarrow> instant \<Rightarrow> api_response \<times> db" where
  "restore_device d data now =
     (let activation_code = json_get data ''activation_code'';
          email = json_get data ''email'';
          device_id = json_get data ''device_id'';
          reason = json_get_default data ''reason'' reason_user_restore
      in if \<not> truthy activation_code \<or> \<not> truthy email \<or> \<not> truthy device_id
         then (respond 400 False (Some msg_missing_params) None, d)
         else
           (case verify_license_with_email d (the activation_code) (the email) None None None now of
              (Invalid e, _) \<Rightarrow> (respond 400 False (Some e) None, d)
            | (Valid v, _) \<Rightarrow>
                (let license_id = v_license_id v; did = the device_id
                 in case select_device (device_activations d) license_id did of
                      None \<Rightarrow> (respond 404 False (Some msg_device_not_found) None, d)
                    | Some _ \<Rightarrow>
                        if set_is_active_rowcount (device_activations d) license_id did True = 0
                        then (respond 500 False (Some msg_restore_failed) None, d)
                        else (respond 200 True (Some msg_device_restored) None,
                              d\<lparr>device_activations :=
                                   set_is_active (device_activations d) license_id did True,
                                 activation_history := activation_history d @
                                   [history_entry license_id ''restore'' (Some did) None
                                      [(''reason'', Some reason),
                                       (''restored_by'', Some ''user'')]]\<rparr>))))"

definition delete_device :: "db \<Rightarrow> json_object \<Rightarrow> instant \<Rightarrow> api_response \<times> db" where
  "delete_device d data now =
     (let activation_code = json_get data ''activation_code'';
          email = json_get data ''email'';
          device_id = json_get data ''device_id'';
          reason = json_get_default data ''reason'' reason_user_delete
      in if \<not> truthy activation_code \<or> \<not> truthy email \<or> \<not> truthy device_id
         then (respond 400 False (Some msg_missing_params) None, d)
         else
           (case verify_license_with_email d (the activation_code) (the email) None None None now of
              (Invalid e, _) \<Rightarrow> (respond 400 False (Some e) None, d)
            | (Valid v, _) \<Rightarrow>
                (let license_id = v_license_id v; did = the device_id
                 in case select_device (device_activations d) license_id did of
                      None \<Rightarrow> (respond 404 False (Some msg_device_not_found) None, d)
                    | Some _ \<Rightarrow>
                        if length (filter (device_match license_id did) (device_activations d)) = 0
                        then (respond 500 False (Some msg_delete_failed) None, d)
                        else (respond 200 True (Some msg_device_deleted) None,
                              d\<lparr>device_activations :=
                                   delete_device_rows (device_activations d) license_id did,
                                 activation_history := activation_history d @
                                   [history_entry license_id ''delete'' (Some did) None
                                      [(''reason'', Some reason),
                                       (''deleted_by'', Some ''user'')]]\<rparr>))))"

section \<open>Extending the validity (\<^verbatim>\<open>admin_extend_validity\<close>)\<close>

definition day_us :: int where
  "day_us = 86400000000"

text \<open>The least and the greatest \<^verbatim>\<open>datetime\<close>: years 1 to 9999.\<close>

definition datetime_min :: instant where
  "datetime_min = 0"

definition datetime_max :: instant where
  "datetime_max = 3652059 * day_us - 1"

text \<open>
  SQL \<^verbatim>\<open>DATE_ADD(t, INTERVAL days DAY)\<close>: \<^verbatim>\<open>NULL\<close> for a \<^verbatim>\<open>NULL\<close> argument; a result outside
  the years 1 to 9999 is taken as \<^verbatim>\<open>NULL\<close>.
\<close>

definition DATE_ADD :: "instant option \<Rightarrow> int \<Rightarrow> instant option" where
  "DATE_ADD t days =
     (case t of
        None \<Rightarrow> None
      | Some x \<Rightarrow>
          (let r = x + days * day_us
           in if datetime_min \<le> r \<and> r \<le> datetime_max then Some r else None))"

text \<open>SQL \<^verbatim>\<open>IFNULL(a, b)\<close>: \<open>a\<close> unless it is \<^verbatim>\<open>NULL\<close>, then \<open>b\<close>.\<close>

definition IFNULL :: "'a option \<Rightarrow> 'a option \<Rightarrow> 'a option" where
  "IFNULL a b = (case a of None \<Rightarrow> b | Some x \<Rightarrow> Some x)"

text \<open>
  \<^verbatim>\<open>UPDATE licenses SET valid_until = IFNULL(DATE_ADD(UTC_TIMESTAMP(), INTERVAL %s DAY),
  DATE_ADD(valid_until, INTERVAL %s DAY)) WHERE license_id = %s\<close>
\<close>

definition extend_rows :: "license list \<Rightarrow> string \<Rightarrow> int \<Rightarrow> instant \<Rightarrow> license list" where
  "extend_rows rows lid days utc_timestamp =
     map (\<lambda>l. if l_license_id l = lid
               then l\<lparr>l_valid_until :=
                        IFNULL (DATE_ADD (Some utc_timestamp) days) (DATE_ADD (l_valid_until l) days)\<rparr>
               else l) rows"

text \<open>
  \<^verbatim>\<open>POST /api/admin/extend-validity\<close> for an authorised administrator; \<open>days\<close> is
  \<^verbatim>\<open>int(data.get('days', 30))\<close>.
\<close>

definition admin_extend_validity ::
  "db \<Rightarrow> string option \<Rightarrow> int \<Rightarrow> instant \<Rightarrow> api_response \<times> db" where
  "admin_extend_validity d license_id days now =
     (if \<not> truthy license_id then (respond 400 False (Some msg_missing_license_id) None, d)
      else (respond 200 True None None,
            d\<lparr>licenses := extend_rows (licenses d) (the license_id) days now\<rparr>))"

section \<open>Issuance (\<^verbatim>\<open>generate_license_with_email\<close>)\<close>

text \<open>The \<^verbatim>\<open>days\<close> argument: absent, an integer, or a value on which \<^verbatim>\<open>int()\<close> raises.\<close>

datatype days_arg = NoDays | Days int | UnconvertibleDays

datatype gen_error = InvalidEmail | UnknownPlan | GenerationFailed py_error | DatabaseFailed

definition convert_days :: "days_arg \<Rightarrow> int option" where
  "convert_days a = (case a of NoDays \<Rightarrow> None | Days n \<Rightarrow> Some n | UnconvertibleDays \<Rightarrow> None)"

text \<open>\<^verbatim>\<open>not days\<close>: absent or zero.\<close>

definition not_days :: "int option \<Rightarrow> bool" where
  "not_days v = (case v of None \<Rightarrow> True | Some n \<Rightarrow> n = 0)"

text \<open>
  \<^verbatim>\<open>now + timedelta(days=n)\<close>: \<^verbatim>\<open>OverflowError\<close> when the day count exceeds 999999999 in
  absolute value or the sum leaves the range of \<^verbatim>\<open>datetime\<close>.
\<close>

definition add_days :: "instant \<Rightarrow> int \<Rightarrow> py_error + instant" where
  "add_days now n =
     (if \<bar>n\<bar> > 999999999 then Inl OverflowError
      else if now + n * day_us < datetime_min \<or> datetime_max < now + n * day_us
      then Inl OverflowError
      else Inr (now + n * day_us))"

text \<open>\<^verbatim>\<open>uuid.uuid4().hex\<close>: the 32 hexadecimal digits of the 128-bit number.\<close>

definition uuid_hex :: "int \<Rightarrow> string" where
  "uuid_hex u = map (\<lambda>i. hex_digit (nat ((u div 16 ^ (31 - i)) mod 16))) [0..<32]"

text \<open>
  Modelled from the spec: the declaration of the \<^verbatim>\<open>licenses\<close> table, which is not part of
  the source. Its uniqueness constraints on \<^verbatim>\<open>license_id\<close> and \<^verbatim>\<open>activation_code\<close> make the
  \<^verbatim>\<open>INSERT INTO licenses ...\<close> of issuance fail on a duplicate, and a new row has the
  status \<^verbatim>\<open>active\<close>.
\<close>

definition insert_license :: "license list \<Rightarrow> license \<Rightarrow> license list option" where
  "insert_license rows l =
     (if list_ex (\<lambda>r. l_license_id r = l_license_id l \<or> l_activation_code r = l_activation_code l) rows
      then None else Some (rows @ [l]))"

text \<open>
  The source reads the clock twice: \<open>now_valid\<close> is the reading from which the expiry is
  computed, \<open>now_issued\<close> the later reading stored as \<^verbatim>\<open>issued_at\<close>. \<open>now_ms\<close> is the reading
  in milliseconds for the code, \<open>uuid_code\<close> and \<open>uuid_lic\<close> are the two UUIDs drawn for the
  activation code and the license id.
\<close>

definition generate_license_with_email ::
  "db \<Rightarrow> string \<Rightarrow> string \<Rightarrow> int \<Rightarrow> days_arg \<Rightarrow> string option \<Rightarrow> instant \<Rightarrow> instant
   \<Rightarrow> int \<Rightarrow> int \<Rightarrow> int \<Rightarrow> gen_error + (license \<times> db)" where
  "generate_license_with_email d plan email device_cap days_in user_hint now_valid now_issued now_ms
     uuid_code uuid_lic =
     (if \<not> is_valid_email email then Inl InvalidEmail
      else
        (let normalized_plan = lower (strip plan)
         in if normalized_plan \<notin> set [''monthly'', ''yearly'', ''lifetime''] then Inl UnknownPlan
            else
              (let days0 = convert_days days_in;
                   days1 = (if normalized_plan = ''monthly'' \<and> not_days days0 then Some 31 else days0);
                   days = (if normalized_plan = ''yearly'' \<and> not_days days1 then Some 365 else days1)
               in case generate_activation_code now_ms uuid_code of
                    Inl e \<Rightarrow> Inl (GenerationFailed e)
                  | Inr activation_code \<Rightarrow>
                      (let license_id = ''LIC-'' @ upper (py_slice (uuid_hex uuid_lic) 0 8)
                       in case (if \<not> not_days days \<and> normalized_plan \<noteq> ''lifetime''
                                then map_sum id Some (add_days now_valid (the days))
                                else Inr None) of
                            Inl e \<Rightarrow> Inl (GenerationFailed e)
                          | Inr valid_until \<Rightarrow>
                              (let row = \<lparr>l_license_id = license_id,
                                           l_activation_code = activation_code,
                                           l_email = email, l_plan = normalized_plan,
                                           l_device_limit = device_cap, l_issued_at = now_issued,
                                           l_valid_until = valid_until, l_user_hint = user_hint,
                                           l_status = ''active''\<rparr>
                               in case insert_license (licenses d) row of
                                    None \<Rightarrow> Inl DatabaseFailed
                                  | Some rows \<Rightarrow> Inr (row, d\<lparr>licenses := rows\<rparr>))))))"

section \<open>Sequences of ledger operations\<close>

text \<open>
  The operations on the device ledger as one type, so that a history of calls is a list;
  \<open>run_ops\<close> applies them in order and keeps the tables.
\<close>

datatype ledger_op =
    Verify string string "string option" "string option" "string option" instant
  | Deactivate string string string
  | Activate string string string
  | Cancel string string string
  | ApiSuspend json_object instant
  | ApiRestore json_object instant
  | ApiDelete json_object instant

fun apply_op :: "db \<Rightarrow> ledger_op \<Rightarrow> db" where
  "apply_op d (Verify code email device_id device_name ip now) =
     snd (verify_license_with_email d code email device_id device_name ip now)"
| "apply_op d (Deactivate lid did reason) = snd (deactivate_device d lid did reason)"
| "apply_op d (Activate lid did reason) = snd (activate_device d lid did reason)"
| "apply_op d (Cancel lid did reason) = snd (cancel_device_activation d lid did reason)"
| "apply_op d (ApiSuspend data now) = snd (suspend_device d data now)"
| "apply_op d (ApiRestore data now) = snd (restore_device d data now)"
| "apply_op d (ApiDelete data now) = snd (delete_device d data now)"

definition run_ops :: "db \<Rightarrow> ledger_op list \<Rightarrow> db" where
  "run_ops d ops = foldl apply_op d ops"

text \<open>The quota invariant of one license row: its active devices do not exceed its limit.\<close>

definition within_limit :: "db \<Rightarrow> license \<Rightarrow> bool" where
  "within_limit d l = (count_active (device_activations d) (l_license_id l) \<le> l_device_limit l)"

section \<open>Example data\<close>

text \<open>A license for one device with no expiry, one that expired at instant 100, and a store holding both.\<close>

definition example_license :: license where
  "example_license =
     \<lparr>l_license_id = ''LIC-0000AAAA'', l_activation_code = ''ABCDE-FGHJK-LCD7W'',
      l_email = ''User@Example.com'', l_plan = ''lifetime'', l_device_limit = 1,
      l_issued_at = 0, l_valid_until = None, l_user_hint = None, l_status = ''active''\<rparr>"

definition expired_license :: license where
  "expired_license =
     \<lparr>l_license_id = ''LIC-0000BBBB'', l_activation_code = ''MNPQR-STUVW-XYZ23'',
      l_email = ''user@example.com'', l_plan = ''monthly'', l_device_limit = 5,
      l_issued_at = 0, l_valid_until = Some 100, l_user_hint = None, l_status = ''active''\<rparr>"

definition example_db :: db where
  "example_db =
     \<lparr>licenses = [example_license, expired_license], device_activations = [],
      revoked_licenses = [], activation_history = []\<rparr>"

text \<open>The request body of a device endpoint for the example license and a device.\<close>

definition device_request :: "string \<Rightarrow> json_object" where
  "device_request did =
     [(''activation_code'', ''ABCDE-FGHJK-LCD7W''), (''email'', ''user@example.com''),
      (''device_id'', did)]"

text \<open>Activate device A, suspend it, activate device B, restore device A.\<close>

definition overfill_ops :: "ledger_op list" where
  "overfill_ops =
     [Verify ''ABCDE-FGHJK-LCD7W'' ''user@example.com'' (Some ''device-A'') None None 10,
      Deactivate ''LIC-0000AAAA'' ''device-A'' ''lost'',
      Verify ''ABCDE-FGHJK-LCD7W'' ''user@example.com'' (Some ''device-B'') None None 20,
      ApiRestore (device_request ''device-A'') 30]"

text \<open>The same history with the manager's \<^verbatim>\<open>activate_device\<close> as the restore.\<close>

definition overfill_ops_admin :: "ledger_op list" where
  "overfill_ops_admin =
     [Verify ''ABCDE-FGHJK-LCD7W'' ''user@example.com'' (Some ''device-A'') None None 10,
      Deactivate ''LIC-0000AAAA'' ''device-A'' ''lost'',
      Verify ''ABCDE-FGHJK-LCD7W'' ''user@example.com'' (Some ''device-B'') None None 20,
      Activate ''LIC-0000AAAA'' ''device-A'' ''found'']"

text \<open>The store after device A has been activated on the example license: the license is full.\<close>

definition full_db :: db where
  "full_db =
     run_ops example_db
       [Verify ''ABCDE-FGHJK-LCD7W'' ''user@example.com'' (Some ''device-A'') None None 10]"

definition device_A_row :: device_activation where
  "device_A_row =
     \<lparr>da_license_id = ''LIC-0000AAAA'', da_device_id = ''device-A'', da_device_name = None,
      da_ip_address = None, da_last_seen_at = 10, da_is_active = True\<rparr>"

text \<open>The store after device A has been activated, at instant 50, on the license that expires at 100.\<close>

definition expiring_db :: db where
  "expiring_db =
     run_ops example_db
       [Verify ''MNPQR-STUVW-XYZ23'' ''user@example.com'' (Some ''device-A'') None None 50]"

text \<open>Three further calls from one device, at instants 20, 30 and 40.\<close>

definition three_calls :: "(string option \<times> string option \<times> instant) list" where
  "three_calls = [(Some ''Mac'', Some ''10.0.0.1'', 20), (None, None, 30), (Some ''Mac'', None, 40)]"

text \<open>Two verification requests: one with a code that no license has, one with the wrong email.\<close>

definition unknown_code_request :: json_object where
  "unknown_code_request =
     [(''license'', ''ZZZZZ-ZZZZZ-ZZZZZ''), (''email'', ''user@example.com''),
      (''device_id'', ''device-A'')]"

definition wrong_email_request :: json_object where
  "wrong_email_request =
     [(''license'', ''ABCDE-FGHJK-LCD7W''), (''email'', ''other@example.com''),
      (''device_id'', ''device-A'')]"

text \<open>A store without rows.\<close>

definition empty_db :: db where
  "empty_db = \<lparr>licenses = [], device_activations = [], revoked_licenses = [], activation_history = []\<rparr>"

text \<open>Eleven characters, each the lone surrogate D800.\<close>

definition lone_surrogates :: py_str where
  "lone_surrogates = replicate 11 55296"

section \<open>Repeated verification from one device\<close>

text \<open>
  Successive calls of \<^verbatim>\<open>verify_license_with_email\<close> with the same code, email and device id;
  each call has its own device name, address and clock reading. The results are returned in
  order with the final tables.
\<close>

fun verify_calls ::
  "db \<Rightarrow> string \<Rightarrow> string \<Rightarrow> string \<Rightarrow> (string option \<times> string option \<times> instant) list
   \<Rightarrow> verify_result list \<times> db" where
  "verify_calls d code email did [] = ([], d)"
| "verify_calls d code email did ((device_name, ip, now) # rest) =
     (case verify_license_with_email d code email (Some did) device_name ip now of
        (res, d') \<Rightarrow>
          (case verify_calls d' code email did rest of
             (results, d'') \<Rightarrow> (res # results, d'')))"

text \<open>What a device row says about the quota: its key and whether it is active.\<close>

definition device_state :: "device_activation \<Rightarrow> string \<times> string \<times> bool" where
  "device_state r = (da_license_id r, da_device_id r, da_is_active r)"

section \<open>The validity window as a rule\<close>

text \<open>
  The duration, in days, that issuance gives a normalised plan and a converted override: none
  for a lifetime plan; otherwise an override that is present and not zero, and failing that
  31 days for a monthly and 365 for a yearly plan.
\<close>

definition spec_duration :: "string \<Rightarrow> int option \<Rightarrow> int option" where
  "spec_duration p override =
     (if p = ''lifetime'' then None
      else if \<not> not_days override then override
      else if p = ''monthly'' then Some 31
      else Some 365)"

text \<open>The day count is one that \<^verbatim>\<open>timedelta\<close> and the sum with the clock can represent.\<close>

definition representable :: "instant \<Rightarrow> int option \<Rightarrow> bool" where
  "representable now v =
     (case v of
        None \<Rightarrow> True
      | Some n \<Rightarrow> \<bar>n\<bar> \<le> 999999999 \<and> datetime_min \<le> now + n * day_us \<and> now + n * day_us \<le> datetime_max)"

section \<open>Facts about the digest and the code generator\<close>

lemma length_state_bytes: "length (state_bytes st) = 32"
  by (cases st) (auto simp: word_bytes_def)

lemma length_sha256: "length (sha256 m) = 32"
  by (simp add: sha256_def Let_def length_state_bytes)

lemma hex_val_hex_digit: "n < 16 \<Longrightarrow> hex_val (hex_digit n) = Some n"
proof -
  assume "n < 16"
  then have "n \<in> set [0..<16]" by simp
  moreover have "list_all (\<lambda>k. hex_val (hex_digit k) = Some k) [0..<16]"
    by code_simp
  ultimately show ?thesis
    unfolding list_all_iff by blast
qed

lemma int_base16_hex_byte: "int_base16 (hex_byte b) = Inr (int (unat b))"
proof -
  have a: "unat b div 16 < 16"
    using unsigned_less [of b, where 'a = nat] by simp
  have c: "unat b mod 16 < 16" by simp
  have "int (unat b div 16 * 16 + unat b mod 16) = int (unat b)"
    by (simp only: div_mult_mod_eq)
  then have e: "int (unat b div 16) * 16 + int (unat b mod 16) = int (unat b)"
    by (simp only: of_nat_add of_nat_mult of_nat_numeral)
  show ?thesis
    using e
    by (simp add: int_base16_def hex_byte_def hex_val_hex_digit [OF a] hex_val_hex_digit [OF c])
qed

lemma slice_concat_hex:
  "i < length bs \<Longrightarrow> py_slice (concat (map hex_byte bs)) (i * 2) (i * 2 + 2) = hex_byte (bs ! i)"
proof (induction bs arbitrary: i)
  case Nil
  then show ?case by simp
next
  case (Cons b bs)
  show ?case
  proof (cases i)
    case 0
    then show ?thesis by (simp add: py_slice_def hex_byte_def)
  next
    case (Suc j)
    with Cons.prems have "j < length bs" by simp
    from Cons.IH [OF this] show ?thesis
      using Suc by (simp add: py_slice_def hex_byte_def)
  qed
qed

lemma py_index_CHARSET:
  "0 \<le> v \<Longrightarrow> py_index CHARSET (v mod CHARSET_LENGTH) = Inr (CHARSET ! nat (v mod 32))"
  by (simp add: py_index_def CHARSET_LENGTH_def CHARSET_def Let_def)


lemma checksum_step:
  assumes "i < length bs"
  shows "checksum_loop (i # idx) (concat (map hex_byte bs)) acc =
         checksum_loop idx (concat (map hex_byte bs)) (acc @ [CHARSET ! (unat (bs ! i) mod 32)])"
proof -
  have s: "py_slice (concat (map hex_byte bs)) (i * 2) (i * 2 + 2) = hex_byte (bs ! i)"
    by (rule slice_concat_hex [OF assms])
  have "nat (int (unat (bs ! i) mod 32)) = unat (bs ! i) mod 32"
    by (rule nat_int)
  then have m: "nat (int (unat (bs ! i)) mod 32) = unat (bs ! i) mod 32"
    by (simp only: of_nat_mod of_nat_numeral)
  have p: "py_index CHARSET (int (unat (bs ! i)) mod CHARSET_LENGTH)
           = Inr (CHARSET ! (unat (bs ! i) mod 32))"
    by (subst py_index_CHARSET) (simp_all only: m of_nat_0_le_iff)
  show ?thesis
    by (simp only: checksum_loop.simps Let_def s int_base16_hex_byte sum.case p)
qed

lemma checksum_loop_digest:
  "\<forall>i \<in> set idx. i < length bs \<Longrightarrow>
   checksum_loop idx (concat (map hex_byte bs)) acc =
     Inr (acc @ map (\<lambda>i. CHARSET ! (unat (bs ! i) mod 32)) idx)"
proof (induction idx arbitrary: acc)
  case Nil
  then show ?case by simp
next
  case (Cons i idx)
  then have i: "i < length bs" and rest: "\<forall>j \<in> set idx. j < length bs"
    by simp_all
  show ?case
    by (simp only: checksum_step [OF i] Cons.IH [OF rest] append_assoc append_Cons append_Nil list.map)
qed

lemma calculate_checksum_11:
  "length s = 11 \<Longrightarrow> utf8_encode s = Inr encoded \<Longrightarrow>
   calculate_checksum s =
     Inr (map (\<lambda>i. CHARSET ! (unat (sha256 encoded ! i) mod 32)) [0..<4])"
  unfolding calculate_checksum_def hexdigest_def
  by (subst checksum_loop_digest) (simp_all add: length_sha256)

lemma utf8_code_point_cases:
  "(is_surrogate n \<longrightarrow> utf8_code_point n = Inl UnicodeEncodeError)
   \<and> (\<not> is_surrogate n \<longrightarrow> (\<exists>bs. utf8_code_point n = Inr bs))"
  by (auto simp: utf8_code_point_def is_surrogate_def)

lemma utf8_encode_ok:
  "list_all (\<lambda>n. \<not> is_surrogate n) s \<Longrightarrow> \<exists>encoded. utf8_encode s = Inr encoded"
proof (induction s)
  case Nil
  then show ?case by simp
next
  case (Cons n s)
  then obtain bs rest where "utf8_code_point n = Inr bs" "utf8_encode s = Inr rest"
    using utf8_code_point_cases [of n] by auto
  then show ?case by simp
qed

lemma utf8_encode_surrogate:
  "list_ex is_surrogate s \<Longrightarrow> utf8_encode s = Inl UnicodeEncodeError"
proof (induction s)
  case Nil
  then show ?case by simp
next
  case (Cons n s)
  show ?case
  proof (cases "is_surrogate n")
    case True
    then show ?thesis
      using utf8_code_point_cases [of n] by simp
  next
    case False
    with Cons.prems have "list_ex is_surrogate s" by simp
    from Cons.IH [OF this] have rest: "utf8_encode s = Inl UnicodeEncodeError" .
    from False obtain bs where "utf8_code_point n = Inr bs"
      using utf8_code_point_cases [of n] by auto
    then show ?thesis
      by (simp add: rest)
  qed
qed

lemma code_points_no_surrogate: "list_all (\<lambda>n. \<not> is_surrogate n) (code_points s)"
proof -
  have "\<not> is_surrogate (of_char c)" for c :: char
  proof -
    have "(of_char c :: nat) mod 256 < 256" by simp
    then have "(of_char c :: nat) < 256" by (simp only: of_char_mod_256)
    then show ?thesis unfolding is_surrogate_def by linarith
  qed
  then show ?thesis
    by (simp add: code_points_def list_all_iff)
qed

lemma CHARSET_nth_mod: "CHARSET ! (n mod 32) \<in> set CHARSET"
  by (rule nth_mem) (simp add: CHARSET_def)

lemma hyphen_notin_CHARSET: "CHR ''-'' \<notin> set CHARSET"
  by (simp add: CHARSET_def)

lemma short_id_loop_ok:
  "\<exists>r. short_id_loop n c acc = Inr (r @ acc) \<and> length r = n \<and> set r \<subseteq> set CHARSET"
proof (induction n arbitrary: c acc)
  case 0
  then show ?case by simp
next
  case (Suc n)
  have ix: "py_index CHARSET (c mod CHARSET_LENGTH) = Inr (CHARSET ! (nat (c mod 32) mod 32))"
    by (simp add: py_index_def CHARSET_LENGTH_def CHARSET_def Let_def)
  obtain r where r: "short_id_loop n (c div CHARSET_LENGTH) (CHARSET ! (nat (c mod 32) mod 32) # acc)
        = Inr (r @ CHARSET ! (nat (c mod 32) mod 32) # acc)" "length r = n" "set r \<subseteq> set CHARSET"
    using Suc.IH by blast
  show ?case
    apply (rule exI [of _ "r @ [CHARSET ! (nat (c mod 32) mod 32)]"])
    using r CHARSET_nth_mod [of "nat (c mod 32)"] by (simp add: ix)
qed

lemma generate_short_id_ok:
  "\<exists>r. generate_short_id t u = Inr r \<and> length r = 11 \<and> set r \<subseteq> set CHARSET"
  using short_id_loop_ok [of 11 _ "[]"] by (simp add: generate_short_id_def Let_def)

text \<open>
  One value computed in full: the digest of \<^verbatim>\<open>ABCDEFGHJKL\<close> starts with the bytes
  c2, 63, 1d, b4, which select C, D, 7 and W.
\<close>

lemma checksum_example: "calculate_checksum (code_points ''ABCDEFGHJKL'') = Inr ''CD7W''"
  by code_simp

section \<open>C10: the checksum function, its length guard and the encoding\<close>

lemma calculate_checksum_encodable:
  assumes "length s = 11" "list_all (\<lambda>n. \<not> is_surrogate n) s"
  shows "\<exists>cs. calculate_checksum s = Inr cs \<and> length cs = 4 \<and> set cs \<subseteq> set CHARSET"
proof -
  obtain encoded where e: "utf8_encode s = Inr encoded"
    using utf8_encode_ok [OF assms(2)] by blast
  show ?thesis
    unfolding calculate_checksum_11 [OF assms(1) e]
    using CHARSET_nth_mod by auto
qed

lemma calculate_checksum_surrogate:
  "length s = 11 \<Longrightarrow> list_ex is_surrogate s \<Longrightarrow> calculate_checksum s = Inl UnicodeEncodeError"
  by (simp add: calculate_checksum_def utf8_encode_surrogate)

text \<open>
  Claim C10 says that \<^verbatim>\<open>calculate_checksum\<close> never raises and returns four alphabet symbols
  for every input of 11 characters. On the 11 characters that are all the lone surrogate D800
  the length guard passes and \<^verbatim>\<open>short_id.encode('utf-8')\<close> raises \<^verbatim>\<open>UnicodeEncodeError\<close>.
\<close>

theorem calculate_checksum_surrogate_counterexample:
  "length lone_surrogates = 11 \<and> calculate_checksum lone_surrogates = Inl UnicodeEncodeError"
proof -
  have l: "length lone_surrogates = 11"
    by (simp add: lone_surrogates_def)
  have "list_ex is_surrogate lone_surrogates"
    by (simp add: lone_surrogates_def list_ex_iff set_replicate_conv_if is_surrogate_def)
  from l calculate_checksum_surrogate [OF l this] show ?thesis by simp
qed

text \<open>
  Claim C10 as amended. \<^verbatim>\<open>calculate_checksum\<close> guards its length precondition with a
  sentinel: on every input whose length is not 11 it returns the empty string without
  raising, whatever the characters. On every input of 11 characters without a lone surrogate
  it returns four characters, each a symbol of the 32-symbol alphabet. On an input of 11
  characters with a lone surrogate the encoding raises \<^verbatim>\<open>UnicodeEncodeError\<close>.
\<close>

theorem calculate_checksum_guarded:
  "(length s \<noteq> 11 \<longrightarrow> calculate_checksum s = Inr []) \<and>
   (length s = 11 \<and> list_all (\<lambda>n. \<not> is_surrogate n) s \<longrightarrow>
      (\<exists>cs. calculate_checksum s = Inr cs \<and> length cs = 4 \<and> set cs \<subseteq> set CHARSET)) \<and>
   (length s = 11 \<and> list_ex is_surrogate s \<longrightarrow> calculate_checksum s = Inl UnicodeEncodeError)"
proof (intro conjI impI)
  assume "length s \<noteq> 11"
  then show "calculate_checksum s = Inr []"
    by (simp add: calculate_checksum_def)
next
  assume "length s = 11 \<and> list_all (\<lambda>n. \<not> is_surrogate n) s"
  then show "\<exists>cs. calculate_checksum s = Inr cs \<and> length cs = 4 \<and> set cs \<subseteq> set CHARSET"
    using calculate_checksum_encodable by blast
next
  assume "length s = 11 \<and> list_ex is_surrogate s"
  then show "calculate_checksum s = Inl UnicodeEncodeError"
    using calculate_checksum_surrogate by blast
qed

theorem calculate_checksum_guarded_witness:
  "calculate_checksum (code_points ''ABC'') = Inr []
   \<and> calculate_checksum (code_points ''ABCDEFGHJKL'') = Inr ''CD7W''
   \<and> length ''CD7W'' = 4 \<and> set ''CD7W'' \<subseteq> set CHARSET
   \<and> calculate_checksum lone_surrogates = Inl UnicodeEncodeError"
proof -
  have a: "length (code_points ''ABC'') \<noteq> 11"
    by (simp add: code_points_def)
  have "length (code_points ''ABCDEFGHJKL'') = 11"
    by (simp add: code_points_def)
  then have b: "length (code_points ''ABCDEFGHJKL'') = 11
           \<and> list_all (\<lambda>n. \<not> is_surrogate n) (code_points ''ABCDEFGHJKL'')"
    using code_points_no_surrogate [of "''ABCDEFGHJKL''"] by (rule conjI)
  have c: "length lone_surrogates = 11 \<and> list_ex is_surrogate lone_surrogates"
    by (simp add: lone_surrogates_def list_ex_iff set_replicate_conv_if is_surrogate_def)
  from calculate_checksum_guarded [of "code_points ''ABC''"] a
  have g1: "calculate_checksum (code_points ''ABC'') = Inr []"
    by blast
  from calculate_checksum_guarded [of "code_points ''ABCDEFGHJKL''"] b
  obtain cs where g2: "calculate_checksum (code_points ''ABCDEFGHJKL'') = Inr cs"
    "length cs = 4" "set cs \<subseteq> set CHARSET"
    by blast
  from g2(1) checksum_example have "cs = ''CD7W''"
    by simp
  with g2 have g3: "calculate_checksum (code_points ''ABCDEFGHJKL'') = Inr ''CD7W''"
    "length ''CD7W'' = 4" "set ''CD7W'' \<subseteq> set CHARSET"
    by simp_all
  from calculate_checksum_guarded [of lone_surrogates] c
  have g4: "calculate_checksum lone_surrogates = Inl UnicodeEncodeError"
    by blast
  from g1 g3 g4 show ?thesis
    by (intro conjI)
qed

section \<open>C7: a generated activation code carries its own checksum\<close>

lemma remove_hyphens_id: "CHR ''-'' \<notin> set xs \<Longrightarrow> remove_hyphens xs = xs"
  by (induction xs) (auto simp: remove_hyphens_def)

lemma remove_hyphens_append: "remove_hyphens (xs @ ys) = remove_hyphens xs @ remove_hyphens ys"
  by (simp add: remove_hyphens_def)

lemma remove_hyphens_hyphen: "remove_hyphens ''-'' = []"
  by (simp add: remove_hyphens_def)

lemma rendered_code:
  assumes "length sid = 11" "length cs = 4"
      and "CHR ''-'' \<notin> set sid" "CHR ''-'' \<notin> set cs"
  defines "code \<equiv> py_slice sid 0 5 @ ''-'' @ py_slice sid 5 10 @ ''-'' @ py_slice sid 10 11 @ cs"
  shows "remove_hyphens code = sid @ cs" "length code = 17"
        "code ! 5 = CHR ''-''" "code ! 11 = CHR ''-''"
proof -
  have parts: "py_slice sid 0 5 @ py_slice sid 5 10 @ py_slice sid 10 11 = sid"
  proof -
    have a: "take 5 sid @ drop 5 sid = sid" by (rule append_take_drop_id)
    have b: "take 5 (drop 5 sid) @ drop 5 (drop 5 sid) = drop 5 sid" by (rule append_take_drop_id)
    have c: "drop 5 (drop 5 sid) = drop 10 sid" by simp
    have d: "take 1 (drop 10 sid) = drop 10 sid" using assms(1) by simp
    have "take 5 sid @ take 5 (drop 5 sid) @ take 1 (drop 10 sid) = sid"
      using a b c d by metis
    then show ?thesis by (simp add: py_slice_def)
  qed
  have n1: "CHR ''-'' \<notin> set (py_slice sid 0 5)" "CHR ''-'' \<notin> set (py_slice sid 5 10)"
    "CHR ''-'' \<notin> set (py_slice sid 10 11)"
    using assms(3) by (auto simp: py_slice_def dest: in_set_takeD in_set_dropD)
  have "remove_hyphens code = py_slice sid 0 5 @ py_slice sid 5 10 @ py_slice sid 10 11 @ cs"
    unfolding code_def
    by (simp only: remove_hyphens_append remove_hyphens_hyphen remove_hyphens_id [OF n1(1)]
        remove_hyphens_id [OF n1(2)] remove_hyphens_id [OF n1(3)] remove_hyphens_id [OF assms(4)]
        append_Nil)
  then show "remove_hyphens code = sid @ cs"
    using parts by (metis append_assoc)
  have l1: "length (py_slice sid 0 5) = 5" "length (py_slice sid 5 10) = 5"
    "length (py_slice sid 10 11) = 1"
    using assms(1) by (simp_all add: py_slice_def)
  show "length code = 17"
    by (simp add: code_def l1 assms(2))
  show "code ! 5 = CHR ''-''"
    by (simp add: code_def nth_append l1)
  show "code ! 11 = CHR ''-''"
    by (simp add: code_def nth_append l1)
qed

text \<open>
  Claim C7. For every clock reading and every UUID, \<^verbatim>\<open>generate_activation_code\<close> returns a
  code of the shape 5-5-5 whose de-hyphenated form is the 11-character identifier followed by
  the 4-character checksum; the identifier is made of alphabet symbols,
  \<^verbatim>\<open>calculate_checksum\<close> of the first 11 characters is the remaining 4, and each checksum
  character is the alphabet symbol indexed by one of the first four bytes of the SHA-256
  digest of the encoded identifier, reduced modulo 32.
\<close>

theorem activation_code_roundtrip:
  "\<exists>code sid cs encoded.
     generate_activation_code now_ms uuid_int = Inr code \<and>
     generate_short_id now_ms uuid_int = Inr sid \<and>
     length sid = 11 \<and> set sid \<subseteq> set CHARSET \<and> length cs = 4 \<and>
     remove_hyphens code = sid @ cs \<and>
     calculate_checksum (code_points (take 11 (remove_hyphens code)))
       = Inr (drop 11 (remove_hyphens code)) \<and>
     utf8_encode (code_points sid) = Inr encoded \<and>
     cs = map (\<lambda>i. CHARSET ! (unat (sha256 encoded ! i) mod 32)) [0..<4] \<and>
     length code = 17 \<and> code ! 5 = CHR ''-'' \<and> code ! 11 = CHR ''-''"
proof -
  obtain sid where sid: "generate_short_id now_ms uuid_int = Inr sid" "length sid = 11"
    "set sid \<subseteq> set CHARSET"
    using generate_short_id_ok by blast
  obtain encoded where e: "utf8_encode (code_points sid) = Inr encoded"
    using utf8_encode_ok [OF code_points_no_surrogate] by blast
  have l: "length (code_points sid) = 11"
    using sid(2) by (simp add: code_points_def)
  define cs where "cs = map (\<lambda>i. CHARSET ! (unat (sha256 encoded ! i) mod 32)) [0..<4]"
  have cc: "calculate_checksum (code_points sid) = Inr cs"
    unfolding cs_def by (rule calculate_checksum_11 [OF l e])
  have lcs: "length cs = 4" by (simp add: cs_def)
  have "set cs \<subseteq> set CHARSET"
    unfolding cs_def using CHARSET_nth_mod by auto
  then have h: "CHR ''-'' \<notin> set sid" "CHR ''-'' \<notin> set cs"
    using sid(3) hyphen_notin_CHARSET by auto
  define code where
    "code = py_slice sid 0 5 @ ''-'' @ py_slice sid 5 10 @ ''-'' @ py_slice sid 10 11 @ cs"
  have g: "generate_activation_code now_ms uuid_int = Inr code"
    by (simp add: generate_activation_code_def sid(1) cc code_def)
  note r = rendered_code [OF sid(2) lcs h, folded code_def]
  have "take 11 (remove_hyphens code) = sid" "drop 11 (remove_hyphens code) = cs"
    using r(1) sid(2) by simp_all
  then have "calculate_checksum (code_points (take 11 (remove_hyphens code)))
      = Inr (drop 11 (remove_hyphens code))"
    using cc by simp
  then show ?thesis
    using g sid lcs r cs_def e by blast
qed

section \<open>C4: extending the validity\<close>

text \<open>
  Within the range of years 1 to 9999 the statement sets the expiry of the addressed license
  to the current instant plus the day count, whatever the old expiry was: the first argument
  of \<^verbatim>\<open>IFNULL\<close> is never \<^verbatim>\<open>NULL\<close> there.
\<close>

lemma extend_rows_valid_until:
  assumes "datetime_min \<le> now + days * day_us" "now + days * day_us \<le> datetime_max"
  shows "map l_valid_until (extend_rows rows lid days now) =
         map (\<lambda>l. if l_license_id l = lid then Some (now + days * day_us) else l_valid_until l) rows"
  using assms by (simp add: extend_rows_def DATE_ADD_def IFNULL_def Let_def)

text \<open>
  Claim C4 says that a license with an expiry gets that expiry plus the day count. At the
  license with expiry 100, extended by 30 days at instant 5000, the code stores
  5000 + 30 days, not 100 + 30 days. The comment above the statement in the source describes
  the claimed behaviour.
\<close>

theorem extend_validity_replaces_expiry:
  "map l_valid_until (licenses (snd (admin_extend_validity example_db (Some ''LIC-0000BBBB'') 30 5000)))
     = [None, Some (5000 + 30 * day_us)]
   \<and> l_valid_until expired_license = Some 100
   \<and> (5000 + 30 * day_us \<noteq> 100 + 30 * day_us)"
  by (simp add: admin_extend_validity_def truthy_def example_db_def example_license_def
      expired_license_def extend_rows_def DATE_ADD_def IFNULL_def Let_def day_us_def
      datetime_min_def datetime_max_def)


section \<open>Facts about verification and the device table\<close>

lemma verify_unknown_code:
  "select_active_license (licenses d) code = None \<Longrightarrow>
   verify_license_with_email d code em did dn ip now = (Invalid err_code_not_found, d)"
  by (simp add: verify_license_with_email_def)

lemma verify_email_mismatch:
  "select_active_license (licenses d) code = Some l \<Longrightarrow> lower (l_email l) \<noteq> lower em \<Longrightarrow>
   verify_license_with_email d code em did dn ip now = (Invalid err_email_mismatch, d)"
  by (simp add: verify_license_with_email_def)

lemma verify_expired:
  "select_active_license (licenses d) code = Some l \<Longrightarrow> lower (l_email l) = lower em \<Longrightarrow>
   expired l now \<Longrightarrow>
   verify_license_with_email d code em did dn ip now = (Invalid err_expired, d)"
  by (simp add: verify_license_with_email_def)

lemma verify_with_device:
  "select_active_license (licenses d) code = Some l \<Longrightarrow> lower (l_email l) = lower em \<Longrightarrow>
   \<not> expired l now \<Longrightarrow> did \<noteq> [] \<Longrightarrow>
   verify_license_with_email d code em (Some did) dn ip now =
     activate_or_heartbeat d l did dn ip now"
  by (simp add: verify_license_with_email_def)

lemma heartbeat_step:
  "select_device (device_activations d) (l_license_id l) did = Some r \<Longrightarrow> da_is_active r \<Longrightarrow>
   activate_or_heartbeat d l did dn ip now =
     (verify_success l (Some msg_device_active),
      d\<lparr>device_activations := touch_device (device_activations d) (l_license_id l) did now dn ip,
        activation_history := activation_history d @
          [history_entry (l_license_id l) ''heartbeat'' (Some did) ip [(''device_name'', dn)]]\<rparr>)"
  by (simp add: activate_or_heartbeat_def Let_def)

lemma suspended_step:
  "select_device (device_activations d) (l_license_id l) did = Some r \<Longrightarrow> \<not> da_is_active r \<Longrightarrow>
   activate_or_heartbeat d l did dn ip now = (Invalid err_device_suspended, d)"
  by (simp add: activate_or_heartbeat_def Let_def)

lemma quota_step:
  "select_device (device_activations d) (l_license_id l) did = None \<Longrightarrow>
   l_device_limit l \<le> count_active (device_activations d) (l_license_id l) \<Longrightarrow>
   activate_or_heartbeat d l did dn ip now = (Invalid (err_quota_exceeded (l_device_limit l)), d)"
  by (simp add: activate_or_heartbeat_def Let_def)

lemma activate_step:
  "select_device (device_activations d) (l_license_id l) did = None \<Longrightarrow>
   count_active (device_activations d) (l_license_id l) < l_device_limit l \<Longrightarrow>
   activate_or_heartbeat d l did dn ip now =
     (verify_success l None,
      d\<lparr>device_activations := device_activations d @
           [\<lparr>da_license_id = l_license_id l, da_device_id = did, da_device_name = dn,
             da_ip_address = ip, da_last_seen_at = now, da_is_active = True\<rparr>],
        activation_history := activation_history d @
          [history_entry (l_license_id l) ''activate'' (Some did) ip [(''device_name'', dn)]]\<rparr>)"
  by (simp add: activate_or_heartbeat_def Let_def)

lemma device_state_touch:
  "map device_state (touch_device rows lid did now dn ip) = map device_state rows"
  by (simp add: touch_device_def device_state_def)

lemma count_active_device_state:
  "map device_state rows = map device_state rows' \<Longrightarrow> count_active rows lid = count_active rows' lid"
proof (induction rows arbitrary: rows')
  case Nil
  then show ?case by simp
next
  case (Cons r rows)
  then obtain r' rest where rows': "rows' = r' # rest" by auto
  with Cons.prems have h: "device_state r = device_state r'" "map device_state rows = map device_state rest"
    by simp_all
  from Cons.IH [OF h(2)] h(1) show ?case
    by (simp add: rows' count_active_def device_state_def)
qed

lemma select_device_touch:
  "select_device (touch_device rows lid did now dn ip) lid' did' =
   map_option (\<lambda>r. if device_match lid did r
                    then r\<lparr>da_last_seen_at := now, da_device_name := dn, da_ip_address := ip\<rparr>
                    else r) (select_device rows lid' did')"
  by (induction rows) (auto simp: select_device_def touch_device_def device_match_def)

lemma select_device_set_is_active:
  "select_device (set_is_active rows lid did b) lid' did' =
   map_option (\<lambda>r. if device_match lid did r then r\<lparr>da_is_active := b\<rparr> else r)
     (select_device rows lid' did')"
  by (induction rows) (auto simp: select_device_def set_is_active_def device_match_def)

lemma select_device_mem:
  "select_device rows lid did = Some r \<Longrightarrow> r \<in> set rows \<and> device_match lid did r"
  unfolding select_device_def by (induction rows) (auto split: if_splits)

lemma count_active_suspend_le:
  "count_active (set_is_active rows lid did False) lid' \<le> count_active rows lid'"
  by (induction rows) (auto simp: count_active_def set_is_active_def)

lemma count_active_suspend_less:
  "r \<in> set rows \<Longrightarrow> device_match lid did r \<Longrightarrow> da_is_active r \<Longrightarrow>
   count_active (set_is_active rows lid did False) lid < count_active rows lid"
proof (induction rows)
  case Nil
  then show ?case by simp
next
  case (Cons x rows)
  have le: "count_active (set_is_active rows lid did False) lid \<le> count_active rows lid"
    by (rule count_active_suspend_le)
  show ?case
  proof (cases "x = r")
    case True
    with Cons.prems le show ?thesis
      by (simp add: count_active_def set_is_active_def device_match_def)
  next
    case False
    with Cons.prems have "r \<in> set rows" by simp
    from Cons.IH [OF this Cons.prems(2,3)] show ?thesis
      by (auto simp: count_active_def set_is_active_def)
  qed
qed

section \<open>Paths that keep the quota invariant\<close>

text \<open>
  Verification, with or without a first activation, suspension and cancellation leave a
  license within its limit when it was within it before: the first activation counts the
  active rows against the limit before it inserts.
\<close>

lemma count_active_append:
  "count_active (rows @ [r]) lid
   = count_active rows lid + (if da_license_id r = lid \<and> da_is_active r then 1 else 0)"
  by (simp add: count_active_def)

lemma count_active_touch:
  "count_active (touch_device rows lid did now dn ip) lid' = count_active rows lid'"
  by (rule count_active_device_state) (rule device_state_touch)

lemma activation_respects_limit:
  assumes lic: "select_active_license (licenses d) code = Some l"
      and inv: "within_limit d l"
  shows "within_limit (snd (verify_license_with_email d code email device_id dn ip now)) l"
proof -
  let ?lid = "l_license_id l"
  have step: "within_limit (snd (activate_or_heartbeat d l did dn ip now)) l" for did
  proof (cases "select_device (device_activations d) ?lid did")
    case None
    show ?thesis
    proof (cases "count_active (device_activations d) ?lid < l_device_limit l")
      case True
      then show ?thesis
        by (simp add: activate_step [OF None True] within_limit_def count_active_append)
    next
      case False
      then have "l_device_limit l \<le> count_active (device_activations d) ?lid" by simp
      from quota_step [OF None this] inv show ?thesis by simp
    qed
  next
    case (Some r)
    show ?thesis
    proof (cases "da_is_active r")
      case True
      from inv show ?thesis
        by (simp add: heartbeat_step [OF Some True] within_limit_def count_active_touch)
    next
      case False
      from inv show ?thesis
        by (simp add: suspended_step [OF Some False])
    qed
  qed
  show ?thesis
    using inv step by (simp add: verify_license_with_email_def lic split: option.splits)
qed

lemma suspend_respects_limit:
  "within_limit d l \<Longrightarrow> within_limit (snd (deactivate_device d lid did reason)) l"
  using count_active_suspend_le [of "device_activations d" lid did "l_license_id l"]
  by (simp add: deactivate_device_def within_limit_def split: option.splits)

lemma count_active_delete_le:
  "count_active (delete_device_rows rows lid did) lid' \<le> count_active rows lid'"
  by (induction rows) (auto simp: count_active_def delete_device_rows_def)

lemma cancel_respects_limit:
  "within_limit d l \<Longrightarrow> within_limit (snd (cancel_device_activation d lid did reason)) l"
  using count_active_delete_le [of "device_activations d" lid did "l_license_id l"]
  by (simp add: cancel_device_activation_def within_limit_def split: option.splits)

section \<open>C1: the quota invariant and the restore operation\<close>

text \<open>
  Claim C1 says that no sequence of ledger operations leaves more active devices than the
  limit of the license, and that restoring a device of a full license does not raise the
  count above the limit. With a limit of one: device A is activated and suspended, device B
  is activated into the slot that the count sees as free, and restoring device A then
  succeeds without any count; two devices are active.
\<close>

theorem overfill_exceeds_limit:
  "count_active (device_activations (run_ops example_db overfill_ops)) ''LIC-0000AAAA'' = 2
   \<and> l_device_limit example_license = 1
   \<and> \<not> within_limit (run_ops example_db overfill_ops) example_license"
  by code_simp


text \<open>The manager's \<^verbatim>\<open>activate_device\<close> does the same, and the restore answers success.\<close>

lemma overfill_admin_exceeds_limit:
  "count_active (device_activations (run_ops example_db overfill_ops_admin)) ''LIC-0000AAAA'' = 2"
  by code_simp

lemma overfill_before_restore:
  "count_active (device_activations (run_ops example_db (take 3 overfill_ops))) ''LIC-0000AAAA'' = 1
   \<and> fst (restore_device (run_ops example_db (take 3 overfill_ops)) (device_request ''device-A'') 30)
       = respond 200 True (Some msg_device_restored) None"
  by code_simp


section \<open>C3: a suspended device and the quota\<close>

lemma deactivate_existing:
  "select_device (device_activations d) lid did = Some r \<Longrightarrow>
   deactivate_device d lid did reason =
     (True,
      d\<lparr>device_activations := set_is_active (device_activations d) lid did False,
        activation_history := activation_history d @
          [history_entry lid ''deactivate'' (Some did) None
             [(''reason'', Some reason), (''deactivated_by'', Some ''admin'')]]\<rparr>)"
  by (simp add: deactivate_device_def)

lemma select_device_append:
  "select_device rows lid did = None \<Longrightarrow>
   select_device (rows @ [x]) lid did = (if device_match lid did x then Some x else None)"
  unfolding select_device_def by (induction rows) (auto split: if_splits)

text \<open>
  Claim C3 says that a full license stays full for a new device after one of its devices is
  suspended. With a limit of one and device A active, device B is refused for the quota;
  after device A is suspended the count of active rows is zero and device B is activated.
\<close>

theorem suspend_frees_slot_counterexample:
  "fst (verify_license_with_email (run_ops example_db (take 1 overfill_ops))
          ''ABCDE-FGHJK-LCD7W'' ''user@example.com'' (Some ''device-B'') None None 20)
     = Invalid (err_quota_exceeded 1)
   \<and> fst (verify_license_with_email (run_ops example_db (take 2 overfill_ops))
          ''ABCDE-FGHJK-LCD7W'' ''user@example.com'' (Some ''device-B'') None None 20)
     = verify_success example_license None
   \<and> count_active (device_activations (run_ops example_db (take 2 overfill_ops))) ''LIC-0000AAAA'' = 0"
  by code_simp

text \<open>
  Claim C3 as amended. The quota counts active rows only. For a license at its limit with an
  active device \<open>did\<close> and a device \<open>did'\<close> without a row: before the suspension \<open>did'\<close> is
  refused with the quota message; suspending \<open>did\<close> succeeds and brings the count below the
  limit; the next verification of \<open>did'\<close> succeeds and inserts its active row; and the
  suspended device itself is refused with the suspension message until it is restored.
\<close>

theorem suspend_frees_slot:
  assumes lic: "select_active_license (licenses d) code = Some l"
      and em: "lower (l_email l) = lower email"
      and live: "\<not> expired l now"
      and full: "count_active (device_activations d) (l_license_id l) = l_device_limit l"
      and old: "select_device (device_activations d) (l_license_id l) did = Some r" "da_is_active r"
               "did \<noteq> []"
      and new: "select_device (device_activations d) (l_license_id l) did' = None" "did' \<noteq> []"
      and d1: "d1 = snd (deactivate_device d (l_license_id l) did reason)"
  shows "verify_license_with_email d code email (Some did') dn ip now
           = (Invalid (err_quota_exceeded (l_device_limit l)), d)
    \<and> fst (deactivate_device d (l_license_id l) did reason)
    \<and> count_active (device_activations d1) (l_license_id l) < l_device_limit l
    \<and> fst (verify_license_with_email d1 code email (Some did') dn ip now) = verify_success l None
    \<and> select_device (device_activations (snd (verify_license_with_email d1 code email (Some did') dn ip now)))
           (l_license_id l) did'
         = Some \<lparr>da_license_id = l_license_id l, da_device_id = did', da_device_name = dn,
                 da_ip_address = ip, da_last_seen_at = now, da_is_active = True\<rparr>
    \<and> verify_license_with_email d1 code email (Some did) dn ip now = (Invalid err_device_suspended, d1)"
proof -
  let ?lid = "l_license_id l"
  have d1eq: "d1 = d\<lparr>device_activations := set_is_active (device_activations d) ?lid did False,
        activation_history := activation_history d @
          [history_entry ?lid ''deactivate'' (Some did) None
             [(''reason'', Some reason), (''deactivated_by'', Some ''admin'')]]\<rparr>"
    unfolding d1 by (simp add: deactivate_existing [OF old(1)])
  have g1: "verify_license_with_email d code email (Some did') dn ip now
           = (Invalid (err_quota_exceeded (l_device_limit l)), d)"
    using full by (simp add: verify_with_device [OF lic em live new(2)] quota_step [OF new(1)])
  have g2: "fst (deactivate_device d ?lid did reason)"
    by (simp add: deactivate_existing [OF old(1)])
  have mem: "r \<in> set (device_activations d)" "device_match ?lid did r"
    using select_device_mem [OF old(1)] by simp_all
  have lt: "count_active (set_is_active (device_activations d) ?lid did False) ?lid < l_device_limit l"
    using count_active_suspend_less [OF mem old(2)] full by simp
  then have g3: "count_active (device_activations d1) ?lid < l_device_limit l"
    by (simp add: d1eq)
  have lic1: "select_active_license (licenses d1) code = Some l"
    using lic by (simp add: d1eq)
  have new1: "select_device (device_activations d1) ?lid did' = None"
    using new(1) by (simp add: d1eq select_device_set_is_active)
  have v: "verify_license_with_email d1 code email (Some did') dn ip now =
     (verify_success l None,
      d1\<lparr>device_activations := device_activations d1 @
           [\<lparr>da_license_id = ?lid, da_device_id = did', da_device_name = dn,
             da_ip_address = ip, da_last_seen_at = now, da_is_active = True\<rparr>],
        activation_history := activation_history d1 @
          [history_entry ?lid ''activate'' (Some did') ip [(''device_name'', dn)]]\<rparr>)"
    by (simp only: verify_with_device [OF lic1 em live new(2)] activate_step [OF new1 g3])
  have g4: "fst (verify_license_with_email d1 code email (Some did') dn ip now) = verify_success l None"
    by (simp add: v)
  have "select_device (device_activations d1 @
           [\<lparr>da_license_id = ?lid, da_device_id = did', da_device_name = dn,
             da_ip_address = ip, da_last_seen_at = now, da_is_active = True\<rparr>]) ?lid did'
        = Some \<lparr>da_license_id = ?lid, da_device_id = did', da_device_name = dn,
                 da_ip_address = ip, da_last_seen_at = now, da_is_active = True\<rparr>"
    using new1 by (simp add: select_device_append device_match_def)
  then have g5: "select_device (device_activations (snd (verify_license_with_email d1 code email (Some did') dn ip now)))
           ?lid did'
         = Some \<lparr>da_license_id = ?lid, da_device_id = did', da_device_name = dn,
                 da_ip_address = ip, da_last_seen_at = now, da_is_active = True\<rparr>"
    by (simp add: v)
  have old1: "select_device (device_activations d1) ?lid did = Some (r\<lparr>da_is_active := False\<rparr>)"
    using old(1) mem(2) by (simp add: d1eq select_device_set_is_active)
  have g6: "verify_license_with_email d1 code email (Some did) dn ip now = (Invalid err_device_suspended, d1)"
    by (simp add: verify_with_device [OF lic1 em live old(3)] suspended_step [OF old1])
  from g1 g2 g3 g4 g5 g6 show ?thesis by blast
qed

theorem suspend_frees_slot_witness:
  "verify_license_with_email full_db ''ABCDE-FGHJK-LCD7W'' ''user@example.com'' (Some ''device-B'')
      None None 20
     = (Invalid (err_quota_exceeded (l_device_limit example_license)), full_db)
   \<and> fst (verify_license_with_email
            (snd (deactivate_device full_db (l_license_id example_license) ''device-A'' ''lost''))
            ''ABCDE-FGHJK-LCD7W'' ''user@example.com'' (Some ''device-B'') None None 20)
     = verify_success example_license None"
proof -
  have h1: "select_active_license (licenses full_db) ''ABCDE-FGHJK-LCD7W'' = Some example_license"
    by code_simp
  have h2: "lower (l_email example_license) = lower ''user@example.com''"
    by code_simp
  have h3: "\<not> expired example_license 20"
    by code_simp
  have h4: "count_active (device_activations full_db) (l_license_id example_license)
            = l_device_limit example_license"
    by code_simp
  have h5: "select_device (device_activations full_db) (l_license_id example_license) ''device-A''
            = Some device_A_row"
    by code_simp
  have h6: "da_is_active device_A_row"
    by code_simp
  have h7: "select_device (device_activations full_db) (l_license_id example_license) ''device-B''
            = None"
    by code_simp
  have ne: "''device-A'' \<noteq> []" "''device-B'' \<noteq> []"
    by simp_all
  from suspend_frees_slot [where reason = "''lost''" and dn = None and ip = None,
      OF h1 h2 h3 h4 h5 h6 ne(1) h7 ne(2) refl]
  show ?thesis by blast
qed

section \<open>C5: re-verification from an active device\<close>

lemma heartbeat_call:
  assumes lic: "select_active_license (licenses d) code = Some l"
      and em: "lower (l_email l) = lower email"
      and live: "\<not> expired l now"
      and did: "did \<noteq> []"
      and row: "select_device (device_activations d) (l_license_id l) did = Some r" "da_is_active r"
  shows "verify_license_with_email d code email (Some did) dn ip now =
     (verify_success l (Some msg_device_active),
      d\<lparr>device_activations := touch_device (device_activations d) (l_license_id l) did now dn ip,
        activation_history := activation_history d @
          [history_entry (l_license_id l) ''heartbeat'' (Some did) ip [(''device_name'', dn)]]\<rparr>)"
  by (simp only: verify_with_device [OF lic em live did] heartbeat_step [OF row])

text \<open>
  Claim C5 says that every further verification from a device with an active row succeeds.
  Device A was activated at instant 50 on the license that expires at 100 and its row is
  active; its verification at instant 200, with the matching email, is refused as expired.
\<close>

theorem heartbeat_expired_counterexample:
  "select_device (device_activations expiring_db) ''LIC-0000BBBB'' ''device-A''
     = Some \<lparr>da_license_id = ''LIC-0000BBBB'', da_device_id = ''device-A'', da_device_name = None,
             da_ip_address = None, da_last_seen_at = 50, da_is_active = True\<rparr>
   \<and> lower (l_email expired_license) = lower ''user@example.com''
   \<and> fst (verify_license_with_email expiring_db ''MNPQR-STUVW-XYZ23'' ''user@example.com''
            (Some ''device-A'') None None 200) = Invalid err_expired"
  by code_simp

text \<open>
  Claim C5 as amended. While the license is found with status active, the email matches and
  the license has not expired at the time of each call, any number of further verifications
  from a device whose row is active all succeed with the message of an activated device, none
  is refused for the quota, the rows keep their keys and activity (so the count of active
  devices of every license is unchanged), each call rewrites only the last-seen instant, the
  device name and the address of the matching row, and each appends one heartbeat entry to
  the history.
\<close>

theorem heartbeat_idempotent:
  assumes lic: "select_active_license (licenses d) code = Some l"
      and em: "lower (l_email l) = lower email"
      and did: "did \<noteq> []"
      and row: "select_device (device_activations d) (l_license_id l) did = Some r" "da_is_active r"
      and live: "list_all (\<lambda>c. \<not> expired l (snd (snd c))) calls"
  shows "fst (verify_calls d code email did calls)
           = map (\<lambda>c. verify_success l (Some msg_device_active)) calls
    \<and> device_activations (snd (verify_calls d code email did calls))
           = foldl (\<lambda>rows c. touch_device rows (l_license_id l) did (snd (snd c)) (fst c) (fst (snd c)))
               (device_activations d) calls
    \<and> map device_state (device_activations (snd (verify_calls d code email did calls)))
           = map device_state (device_activations d)
    \<and> count_active (device_activations (snd (verify_calls d code email did calls))) lid
           = count_active (device_activations d) lid
    \<and> activation_history (snd (verify_calls d code email did calls))
           = activation_history d @
             map (\<lambda>c. history_entry (l_license_id l) ''heartbeat'' (Some did) (fst (snd c))
                        [(''device_name'', fst c)]) calls
    \<and> licenses (snd (verify_calls d code email did calls)) = licenses d
    \<and> revoked_licenses (snd (verify_calls d code email did calls)) = revoked_licenses d"
  using lic row live
proof (induction calls arbitrary: d r)
  case Nil
  then show ?case by simp
next
  case (Cons c calls)
  obtain dn ip now where c: "c = (dn, ip, now)" by (cases c) auto
  let ?lid = "l_license_id l"
  define d' where "d' = d\<lparr>device_activations := touch_device (device_activations d) ?lid did now dn ip,
        activation_history := activation_history d @
          [history_entry ?lid ''heartbeat'' (Some did) ip [(''device_name'', dn)]]\<rparr>"
  from Cons.prems(4) have live1: "\<not> expired l now" and live2: "list_all (\<lambda>c. \<not> expired l (snd (snd c))) calls"
    by (simp_all add: c)
  have step: "verify_license_with_email d code email (Some did) dn ip now
              = (verify_success l (Some msg_device_active), d')"
    unfolding d'_def by (rule heartbeat_call [OF Cons.prems(1) em live1 did Cons.prems(2,3)])
  have lic': "select_active_license (licenses d') code = Some l"
    using Cons.prems(1) by (simp add: d'_def)
  have m: "device_match ?lid did r"
    using select_device_mem [OF Cons.prems(2)] by simp
  have row': "select_device (device_activations d') ?lid did
              = Some (r\<lparr>da_last_seen_at := now, da_device_name := dn, da_ip_address := ip\<rparr>)"
    using Cons.prems(2) m by (simp add: d'_def select_device_touch)
  have act': "da_is_active (r\<lparr>da_last_seen_at := now, da_device_name := dn, da_ip_address := ip\<rparr>)"
    using Cons.prems(3) by simp
  note ih = Cons.IH [OF lic' row' act' live2]
  have unf: "verify_calls d code email did ((dn, ip, now) # calls)
        = (verify_success l (Some msg_device_active) # fst (verify_calls d' code email did calls),
           snd (verify_calls d' code email did calls))"
    by (simp add: step split: prod.splits)
  have ds: "map device_state (device_activations d') = map device_state (device_activations d)"
    by (simp add: d'_def device_state_touch)
  have ca: "count_active (device_activations d') lid = count_active (device_activations d) lid"
    by (rule count_active_device_state [OF ds])
  have da': "device_activations d' = touch_device (device_activations d) ?lid did now dn ip"
    and ah': "activation_history d' = activation_history d @
          [history_entry ?lid ''heartbeat'' (Some did) ip [(''device_name'', dn)]]"
    and ls': "licenses d' = licenses d" and rv': "revoked_licenses d' = revoked_licenses d"
    by (simp_all add: d'_def)
  from ih have i1: "fst (verify_calls d' code email did calls)
           = map (\<lambda>c. verify_success l (Some msg_device_active)) calls"
    and i2: "device_activations (snd (verify_calls d' code email did calls))
           = foldl (\<lambda>rows c. touch_device rows ?lid did (snd (snd c)) (fst c) (fst (snd c)))
               (device_activations d') calls"
    and i3: "map device_state (device_activations (snd (verify_calls d' code email did calls)))
           = map device_state (device_activations d')"
    and i4: "count_active (device_activations (snd (verify_calls d' code email did calls))) lid
           = count_active (device_activations d') lid"
    and i5: "activation_history (snd (verify_calls d' code email did calls))
           = activation_history d' @
             map (\<lambda>c. history_entry ?lid ''heartbeat'' (Some did) (fst (snd c))
                        [(''device_name'', fst c)]) calls"
    and i6: "licenses (snd (verify_calls d' code email did calls)) = licenses d'"
    and i7: "revoked_licenses (snd (verify_calls d' code email did calls)) = revoked_licenses d'"
    by blast+
  have g1: "fst (verify_calls d code email did (c # calls))
           = map (\<lambda>c. verify_success l (Some msg_device_active)) (c # calls)"
    unfolding c unf by (simp add: i1)
  have g2: "device_activations (snd (verify_calls d code email did (c # calls)))
           = foldl (\<lambda>rows c. touch_device rows ?lid did (snd (snd c)) (fst c) (fst (snd c)))
               (device_activations d) (c # calls)"
    unfolding c unf by (simp add: i2 da')
  have g3: "map device_state (device_activations (snd (verify_calls d code email did (c # calls))))
           = map device_state (device_activations d)"
    unfolding c unf by (simp add: i3 ds)
  have g4: "count_active (device_activations (snd (verify_calls d code email did (c # calls)))) lid
           = count_active (device_activations d) lid"
    unfolding c unf by (simp add: i4 ca)
  have g5: "activation_history (snd (verify_calls d code email did (c # calls)))
           = activation_history d @
             map (\<lambda>c. history_entry ?lid ''heartbeat'' (Some did) (fst (snd c))
                        [(''device_name'', fst c)]) (c # calls)"
    unfolding c unf by (simp add: i5 ah')
  have g6: "licenses (snd (verify_calls d code email did (c # calls))) = licenses d"
    unfolding c unf by (simp add: i6 ls')
  have g7: "revoked_licenses (snd (verify_calls d code email did (c # calls))) = revoked_licenses d"
    unfolding c unf by (simp add: i7 rv')
  from g1 g2 g3 g4 g5 g6 g7 show ?case by blast
qed

theorem heartbeat_idempotent_witness:
  "fst (verify_calls full_db ''ABCDE-FGHJK-LCD7W'' ''USER@example.com'' ''device-A'' three_calls)
     = map (\<lambda>c. verify_success example_license (Some msg_device_active)) three_calls
   \<and> count_active (device_activations (snd (verify_calls full_db ''ABCDE-FGHJK-LCD7W''
          ''USER@example.com'' ''device-A'' three_calls)))
        (l_license_id example_license)
     = count_active (device_activations full_db) (l_license_id example_license)"
proof -
  have h1: "select_active_license (licenses full_db) ''ABCDE-FGHJK-LCD7W'' = Some example_license"
    by code_simp
  have h2: "lower (l_email example_license) = lower ''USER@example.com''"
    by code_simp
  have h3: "''device-A'' \<noteq> []"
    by simp
  have h4: "select_device (device_activations full_db) (l_license_id example_license) ''device-A''
            = Some device_A_row"
    by code_simp
  have h5: "da_is_active device_A_row"
    by code_simp
  have h6: "list_all (\<lambda>c. \<not> expired example_license (snd (snd c))) three_calls"
    by (simp add: expired_def example_license_def three_calls_def)
  from heartbeat_idempotent [where lid = "l_license_id example_license", OF h1 h2 h3 h4 h5 h6]
  show ?thesis by (elim conjE, intro conjI) assumption+
qed

section \<open>C9: what a failed verification tells the caller\<close>

text \<open>
  Claim C9 says that the caller gets the same message for an unknown code and for a known
  code with the wrong email. The endpoint answers the first request with the text for a
  missing or disabled code and the second with the text for an email that does not match.
\<close>

theorem verify_messages_differ_counterexample:
  "r_message (fst (verify_license example_db True
       [(''license'', ''ZZZZZ-ZZZZZ-ZZZZZ''), (''email'', ''user@example.com''), (''device_id'', ''device-A'')]
       None 10))
   \<noteq> r_message (fst (verify_license example_db True
       [(''license'', ''ABCDE-FGHJK-LCD7W''), (''email'', ''other@example.com''), (''device_id'', ''device-A'')]
       None 10))"
  by code_simp

lemma err_messages_differ: "err_code_not_found \<noteq> err_email_mismatch"
  by (simp add: err_code_not_found_def err_email_mismatch_def)

text \<open>
  Claim C9 as amended. For a request that carries a code, an email and a device id, the
  endpoint passes the manager's error text through: when no active license has the code the
  response is status 400, no success, code \<^verbatim>\<open>INVALID_LICENSE\<close> and the text for a missing or
  disabled code; when the license is found and the email differs, the same with the text for
  a mismatched email. The two responses differ, in the message only.
\<close>

theorem verify_failure_messages:
  assumes "data \<noteq> []"
      and "strip (json_get_default data ''license'' []) = code" "code \<noteq> []"
      and "strip (json_get_default data ''email'' []) = email" "email \<noteq> []"
      and "strip (json_get_default data ''device_id'' []) \<noteq> []"
  shows "(select_active_license (licenses d) code = None \<longrightarrow>
            verify_license d True data remote_addr now
              = (respond 400 False (Some err_code_not_found) (Some ''INVALID_LICENSE''), d))
       \<and> (\<forall>l. select_active_license (licenses d) code = Some l \<and> lower (l_email l) \<noteq> lower email \<longrightarrow>
            verify_license d True data remote_addr now
              = (respond 400 False (Some err_email_mismatch) (Some ''INVALID_LICENSE''), d))
       \<and> respond 400 False (Some err_code_not_found) (Some ''INVALID_LICENSE'')
           \<noteq> respond 400 False (Some err_email_mismatch) (Some ''INVALID_LICENSE'')"
proof (intro conjI impI allI)
  assume "select_active_license (licenses d) code = None"
  then show "verify_license d True data remote_addr now
              = (respond 400 False (Some err_code_not_found) (Some ''INVALID_LICENSE''), d)"
    using assms by (simp add: verify_license_def Let_def verify_unknown_code)
next
  fix l
  assume "select_active_license (licenses d) code = Some l \<and> lower (l_email l) \<noteq> lower email"
  then show "verify_license d True data remote_addr now
              = (respond 400 False (Some err_email_mismatch) (Some ''INVALID_LICENSE''), d)"
    using assms by (simp add: verify_license_def Let_def verify_email_mismatch)
next
  show "respond 400 False (Some err_code_not_found) (Some ''INVALID_LICENSE'')
           \<noteq> respond 400 False (Some err_email_mismatch) (Some ''INVALID_LICENSE'')"
    using err_messages_differ by (simp add: respond_def)
qed

theorem verify_failure_messages_witness:
  "verify_license example_db True unknown_code_request None 10
     = (respond 400 False (Some err_code_not_found) (Some ''INVALID_LICENSE''), example_db)
   \<and> verify_license example_db True wrong_email_request None 10
     = (respond 400 False (Some err_email_mismatch) (Some ''INVALID_LICENSE''), example_db)"
proof -
  have a: "unknown_code_request \<noteq> []" "wrong_email_request \<noteq> []"
    by (simp_all add: unknown_code_request_def wrong_email_request_def)
  have b: "strip (json_get_default unknown_code_request ''license'' []) = ''ZZZZZ-ZZZZZ-ZZZZZ''"
    "strip (json_get_default unknown_code_request ''email'' []) = ''user@example.com''"
    "strip (json_get_default unknown_code_request ''device_id'' []) \<noteq> []"
    "strip (json_get_default wrong_email_request ''license'' []) = ''ABCDE-FGHJK-LCD7W''"
    "strip (json_get_default wrong_email_request ''email'' []) = ''other@example.com''"
    "strip (json_get_default wrong_email_request ''device_id'' []) \<noteq> []"
    by code_simp+
  have c: "''ZZZZZ-ZZZZZ-ZZZZZ'' \<noteq> []" "''user@example.com'' \<noteq> []" "''ABCDE-FGHJK-LCD7W'' \<noteq> []"
    "''other@example.com'' \<noteq> []"
    by simp_all
  have s1: "select_active_license (licenses example_db) ''ZZZZZ-ZZZZZ-ZZZZZ'' = None"
    by code_simp
  have s2: "select_active_license (licenses example_db) ''ABCDE-FGHJK-LCD7W'' = Some example_license
            \<and> lower (l_email example_license) \<noteq> lower ''other@example.com''"
    by code_simp
  note t1 = verify_failure_messages [OF a(1) b(1) c(1) b(2) c(2) b(3), of example_db None 10]
  note t2 = verify_failure_messages [OF a(2) b(4) c(3) b(5) c(4) b(6), of example_db None 10]
  from t1 s1 have g1: "verify_license example_db True unknown_code_request None 10
     = (respond 400 False (Some err_code_not_found) (Some ''INVALID_LICENSE''), example_db)"
    by blast
  from t2 s2 have g2: "verify_license example_db True wrong_email_request None 10
     = (respond 400 False (Some err_email_mismatch) (Some ''INVALID_LICENSE''), example_db)"
    by blast
  from g1 g2 show ?thesis by (rule conjI)
qed

section \<open>C8: revoking twice\<close>

lemma revoke_existing:
  "list_ex (\<lambda>l. l_license_id l = lid) (licenses d) \<Longrightarrow>
   revoke_license d lid reason by =
     (True,
      d\<lparr>revoked_licenses := upsert_revoked (revoked_licenses d) lid reason by,
        licenses := set_status (licenses d) lid ''revoked'',
        activation_history := activation_history d @
          [history_entry lid ''revoke'' None None [(''reason'', Some reason), (''revoked_by'', by)]]\<rparr>)"
  by (simp add: revoke_license_def)

lemma list_ex_set_status:
  "list_ex (\<lambda>l. l_license_id l = lid) (set_status rows lid' st) = list_ex (\<lambda>l. l_license_id l = lid) rows"
  by (induction rows) (auto simp: set_status_def)

lemma set_status_twice: "set_status (set_status rows lid st) lid st = set_status rows lid st"
  by (induction rows) (auto simp: set_status_def)

lemma set_status_all:
  "list_all (\<lambda>l. l_status l = st) (filter (\<lambda>l. l_license_id l = lid) (set_status rows lid st))"
  by (induction rows) (auto simp: set_status_def)

lemma keys_update_rows:
  "map rl_license_id
     (map (\<lambda>r. if rl_license_id r = lid then r\<lparr>rl_reason := reason, rl_revoked_by := by\<rparr> else r) rows)
   = map rl_license_id rows"
  by (induction rows) simp_all

lemma list_ex_key: "list_ex (\<lambda>r. rl_license_id r = lid) rows = (lid \<in> set (map rl_license_id rows))"
  by (induction rows) auto

lemma keys_upsert:
  "map rl_license_id (upsert_revoked rows lid reason by)
   = (if lid \<in> set (map rl_license_id rows) then map rl_license_id rows
      else map rl_license_id rows @ [lid])"
  unfolding upsert_revoked_def list_ex_key
  by (simp only: keys_update_rows if_distrib [of "map rl_license_id"] map_append list.map
      revoked_license.select_convs)

lemma list_ex_upsert: "list_ex (\<lambda>r. rl_license_id r = lid) (upsert_revoked rows lid reason by)"
  unfolding list_ex_key keys_upsert by simp

lemma upsert_keeps_distinct:
  "distinct (map rl_license_id rows) \<Longrightarrow> distinct (map rl_license_id (upsert_revoked rows lid reason by))"
  unfolding keys_upsert by simp

lemma update_rows_twice:
  "map (\<lambda>r. if rl_license_id r = lid then r\<lparr>rl_reason := r2, rl_revoked_by := b2\<rparr> else r)
     (map (\<lambda>r. if rl_license_id r = lid then r\<lparr>rl_reason := r1, rl_revoked_by := b1\<rparr> else r) rows)
   = map (\<lambda>r. if rl_license_id r = lid then r\<lparr>rl_reason := r2, rl_revoked_by := b2\<rparr> else r) rows"
  by (induction rows) simp_all

lemma update_rows_absent:
  "lid \<notin> set (map rl_license_id rows) \<Longrightarrow>
   map (\<lambda>r. if rl_license_id r = lid then r\<lparr>rl_reason := r2, rl_revoked_by := b2\<rparr> else r) rows = rows"
  by (induction rows) auto

lemma upsert_twice:
  "upsert_revoked (upsert_revoked rows lid r1 b1) lid r2 b2 = upsert_revoked rows lid r2 b2"
proof (cases "lid \<in> set (map rl_license_id rows)")
  case True
  then have e1: "upsert_revoked rows lid r1 b1
      = map (\<lambda>r. if rl_license_id r = lid then r\<lparr>rl_reason := r1, rl_revoked_by := b1\<rparr> else r) rows"
    and e2: "upsert_revoked rows lid r2 b2
      = map (\<lambda>r. if rl_license_id r = lid then r\<lparr>rl_reason := r2, rl_revoked_by := b2\<rparr> else r) rows"
    by (simp_all add: upsert_revoked_def list_ex_key)
  have "lid \<in> set (map rl_license_id (upsert_revoked rows lid r1 b1))"
    using True by (simp only: keys_upsert if_True)
  then have "upsert_revoked (upsert_revoked rows lid r1 b1) lid r2 b2
      = map (\<lambda>r. if rl_license_id r = lid then r\<lparr>rl_reason := r2, rl_revoked_by := b2\<rparr> else r)
          (upsert_revoked rows lid r1 b1)"
    by (simp add: upsert_revoked_def [of "upsert_revoked rows lid r1 b1"] list_ex_key)
  then show ?thesis
    by (simp only: e1 e2 update_rows_twice)
next
  case False
  then have e1: "upsert_revoked rows lid r1 b1
      = rows @ [\<lparr>rl_license_id = lid, rl_reason = r1, rl_revoked_by = b1\<rparr>]"
    and e2: "upsert_revoked rows lid r2 b2
      = rows @ [\<lparr>rl_license_id = lid, rl_reason = r2, rl_revoked_by = b2\<rparr>]"
    by (simp_all add: upsert_revoked_def list_ex_key)
  have "upsert_revoked (rows @ [\<lparr>rl_license_id = lid, rl_reason = r1, rl_revoked_by = b1\<rparr>]) lid r2 b2
      = map (\<lambda>r. if rl_license_id r = lid then r\<lparr>rl_reason := r2, rl_revoked_by := b2\<rparr> else r)
          (rows @ [\<lparr>rl_license_id = lid, rl_reason = r1, rl_revoked_by = b1\<rparr>])"
    by (simp add: upsert_revoked_def list_ex_key)
  also have "\<dots> = rows @ [\<lparr>rl_license_id = lid, rl_reason = r2, rl_revoked_by = b2\<rparr>]"
    using update_rows_absent [OF False] by simp
  finally show ?thesis
    by (simp only: e1 e2)
qed

lemma filter_absent:
  "lid \<notin> set (map rl_license_id rows) \<Longrightarrow> filter (\<lambda>r. rl_license_id r = lid) rows = []"
  by (induction rows) auto

lemma update_rows_of:
  "distinct (map rl_license_id rows) \<Longrightarrow> lid \<in> set (map rl_license_id rows) \<Longrightarrow>
   filter (\<lambda>r. rl_license_id r = lid)
     (map (\<lambda>r. if rl_license_id r = lid then r\<lparr>rl_reason := reason, rl_revoked_by := by\<rparr> else r) rows)
   = [\<lparr>rl_license_id = lid, rl_reason = reason, rl_revoked_by = by\<rparr>]"
proof (induction rows)
  case Nil
  then show ?case by simp
next
  case (Cons x rows)
  from Cons.prems(1) have d: "distinct (map rl_license_id rows)"
    and nx: "rl_license_id x \<notin> set (map rl_license_id rows)"
    by simp_all
  show ?case
  proof (cases "rl_license_id x = lid")
    case True
    with nx have "lid \<notin> set (map rl_license_id rows)" by blast
    then have "lid \<notin> set (map rl_license_id
        (map (\<lambda>r. if rl_license_id r = lid then r\<lparr>rl_reason := reason, rl_revoked_by := by\<rparr> else r) rows))"
      unfolding keys_update_rows .
    from filter_absent [OF this] True show ?thesis
      by simp
  next
    case False
    with Cons.prems(2) have "lid \<in> set (map rl_license_id rows)" by auto
    from Cons.IH [OF d this] False show ?thesis
      by simp
  qed
qed

lemma upsert_rows_of:
  assumes "distinct (map rl_license_id rows)"
  shows "filter (\<lambda>r. rl_license_id r = lid) (upsert_revoked rows lid reason by)
     = [\<lparr>rl_license_id = lid, rl_reason = reason, rl_revoked_by = by\<rparr>]"
proof (cases "lid \<in> set (map rl_license_id rows)")
  case True
  then show ?thesis
    using update_rows_of [OF assms True] by (simp add: upsert_revoked_def list_ex_key)
next
  case False
  then show ?thesis
    using filter_absent [OF False] by (simp add: upsert_revoked_def list_ex_key)
qed

lemma upsert_other_rows:
  "filter (\<lambda>r. rl_license_id r \<noteq> lid) (upsert_revoked rows lid reason by)
     = filter (\<lambda>r. rl_license_id r \<noteq> lid) rows"
proof -
  have "filter (\<lambda>r. rl_license_id r \<noteq> lid)
     (map (\<lambda>r. if rl_license_id r = lid then r\<lparr>rl_reason := reason, rl_revoked_by := by\<rparr> else r) rows)
     = filter (\<lambda>r. rl_license_id r \<noteq> lid) rows"
    by (induction rows) simp_all
  then show ?thesis
    by (simp add: upsert_revoked_def)
qed

lemma length_upsert_present:
  "lid \<in> set (map rl_license_id rows) \<Longrightarrow> length (upsert_revoked rows lid reason by) = length rows"
  by (simp add: upsert_revoked_def list_ex_key)

lemma filter_set_status_nonempty:
  "list_ex (\<lambda>l. l_license_id l = lid) rows \<Longrightarrow>
   filter (\<lambda>l. l_license_id l = lid) (set_status rows lid st) \<noteq> []"
  by (induction rows) (auto simp: set_status_def)

text \<open>
  Claim C8. For a license that exists, with \<^verbatim>\<open>license_id\<close> the key of the revocation table,
  revoking twice succeeds both times. Afterwards every row of the license has status revoked,
  exactly one revocation record exists for it and carries the reason and the actor of the
  second call, the second call has added no row and left the records of other licenses as
  they were, and the license and revocation tables equal those after a single revocation with
  the second call's arguments. Each call appends one entry to the history.
\<close>

theorem revoke_idempotent:
  assumes ex: "list_ex (\<lambda>l. l_license_id l = lid) (licenses d)"
      and key: "distinct (map rl_license_id (revoked_licenses d))"
      and d1: "d1 = snd (revoke_license d lid reason1 by1)"
      and d2: "d2 = snd (revoke_license d1 lid reason2 by2)"
  shows "fst (revoke_license d lid reason1 by1) \<and> fst (revoke_license d1 lid reason2 by2)
    \<and> filter (\<lambda>l. l_license_id l = lid) (licenses d2) \<noteq> []
    \<and> list_all (\<lambda>l. l_status l = ''revoked'') (filter (\<lambda>l. l_license_id l = lid) (licenses d2))
    \<and> filter (\<lambda>r. rl_license_id r = lid) (revoked_licenses d1)
        = [\<lparr>rl_license_id = lid, rl_reason = reason1, rl_revoked_by = by1\<rparr>]
    \<and> filter (\<lambda>r. rl_license_id r = lid) (revoked_licenses d2)
        = [\<lparr>rl_license_id = lid, rl_reason = reason2, rl_revoked_by = by2\<rparr>]
    \<and> length (revoked_licenses d2) = length (revoked_licenses d1)
    \<and> filter (\<lambda>r. rl_license_id r \<noteq> lid) (revoked_licenses d2)
        = filter (\<lambda>r. rl_license_id r \<noteq> lid) (revoked_licenses d)
    \<and> licenses d2 = licenses d1
    \<and> licenses d2 = licenses (snd (revoke_license d lid reason2 by2))
    \<and> revoked_licenses d2 = revoked_licenses (snd (revoke_license d lid reason2 by2))
    \<and> device_activations d2 = device_activations d
    \<and> activation_history d2 = activation_history d1 @
          [history_entry lid ''revoke'' None None [(''reason'', Some reason2), (''revoked_by'', by2)]]"
proof -
  have e1: "d1 = d\<lparr>revoked_licenses := upsert_revoked (revoked_licenses d) lid reason1 by1,
        licenses := set_status (licenses d) lid ''revoked'',
        activation_history := activation_history d @
          [history_entry lid ''revoke'' None None [(''reason'', Some reason1), (''revoked_by'', by1)]]\<rparr>"
    unfolding d1 by (simp add: revoke_existing [OF ex])
  have ex1: "list_ex (\<lambda>l. l_license_id l = lid) (licenses d1)"
    using ex by (simp add: e1 list_ex_set_status)
  have e2: "d2 = d1\<lparr>revoked_licenses := upsert_revoked (revoked_licenses d1) lid reason2 by2,
        licenses := set_status (licenses d1) lid ''revoked'',
        activation_history := activation_history d1 @
          [history_entry lid ''revoke'' None None [(''reason'', Some reason2), (''revoked_by'', by2)]]\<rparr>"
    unfolding d2 by (simp add: revoke_existing [OF ex1])
  have e3: "snd (revoke_license d lid reason2 by2)
      = d\<lparr>revoked_licenses := upsert_revoked (revoked_licenses d) lid reason2 by2,
        licenses := set_status (licenses d) lid ''revoked'',
        activation_history := activation_history d @
          [history_entry lid ''revoke'' None None [(''reason'', Some reason2), (''revoked_by'', by2)]]\<rparr>"
    by (simp add: revoke_existing [OF ex])
  have l1: "licenses d1 = set_status (licenses d) lid ''revoked''"
    and r1: "revoked_licenses d1 = upsert_revoked (revoked_licenses d) lid reason1 by1"
    by (simp_all add: e1)
  have l2: "licenses d2 = set_status (licenses d) lid ''revoked''"
    by (simp add: e2 l1 set_status_twice)
  have r2: "revoked_licenses d2 = upsert_revoked (revoked_licenses d) lid reason2 by2"
    by (simp add: e2 r1 upsert_twice)
  have g1: "fst (revoke_license d lid reason1 by1)" "fst (revoke_license d1 lid reason2 by2)"
    by (simp_all add: revoke_existing [OF ex] revoke_existing [OF ex1])
  have g2: "filter (\<lambda>l. l_license_id l = lid) (licenses d2) \<noteq> []"
    unfolding l2 by (rule filter_set_status_nonempty [OF ex])
  have g3: "list_all (\<lambda>l. l_status l = ''revoked'') (filter (\<lambda>l. l_license_id l = lid) (licenses d2))"
    unfolding l2 by (rule set_status_all)
  have g4: "filter (\<lambda>r. rl_license_id r = lid) (revoked_licenses d1)
        = [\<lparr>rl_license_id = lid, rl_reason = reason1, rl_revoked_by = by1\<rparr>]"
    unfolding r1 by (rule upsert_rows_of [OF key])
  have g5: "filter (\<lambda>r. rl_license_id r = lid) (revoked_licenses d2)
        = [\<lparr>rl_license_id = lid, rl_reason = reason2, rl_revoked_by = by2\<rparr>]"
    unfolding r2 by (rule upsert_rows_of [OF key])
  have "lid \<in> set (map rl_license_id (revoked_licenses d1))"
    using list_ex_upsert [of lid "revoked_licenses d" reason1 by1] by (simp only: r1 list_ex_key)
  then have g6: "length (revoked_licenses d2) = length (revoked_licenses d1)"
    by (simp add: e2 length_upsert_present)
  have g7: "filter (\<lambda>r. rl_license_id r \<noteq> lid) (revoked_licenses d2)
        = filter (\<lambda>r. rl_license_id r \<noteq> lid) (revoked_licenses d)"
    unfolding r2 by (rule upsert_other_rows)
  have g8: "licenses d2 = licenses d1"
    by (simp only: l1 l2)
  have g9: "licenses d2 = licenses (snd (revoke_license d lid reason2 by2))"
    by (simp add: e3 l2)
  have g10: "revoked_licenses d2 = revoked_licenses (snd (revoke_license d lid reason2 by2))"
    by (simp add: e3 r2)
  have g11: "device_activations d2 = device_activations d"
    by (simp add: e2 e1)
  have g12: "activation_history d2 = activation_history d1 @
          [history_entry lid ''revoke'' None None [(''reason'', Some reason2), (''revoked_by'', by2)]]"
    by (simp add: e2)
  from g1 g2 g3 g4 g5 g6 g7 g8 g9 g10 g11 g12 show ?thesis
    by (intro conjI)
qed

theorem revoke_idempotent_witness:
  "fst (revoke_license example_db ''LIC-0000AAAA'' ''chargeback'' (Some ''admin''))
   \<and> fst (revoke_license (snd (revoke_license example_db ''LIC-0000AAAA'' ''chargeback'' (Some ''admin'')))
           ''LIC-0000AAAA'' ''fraud'' (Some ''admin''))
   \<and> filter (\<lambda>r. rl_license_id r = ''LIC-0000AAAA'')
        (revoked_licenses (snd (revoke_license
           (snd (revoke_license example_db ''LIC-0000AAAA'' ''chargeback'' (Some ''admin'')))
           ''LIC-0000AAAA'' ''fraud'' (Some ''admin''))))
      = [\<lparr>rl_license_id = ''LIC-0000AAAA'', rl_reason = ''fraud'', rl_revoked_by = Some ''admin''\<rparr>]"
proof -
  have h1: "list_ex (\<lambda>l. l_license_id l = ''LIC-0000AAAA'') (licenses example_db)"
    by code_simp
  have h2: "distinct (map rl_license_id (revoked_licenses example_db))"
    by code_simp
  from revoke_idempotent [OF h1 h2 refl refl, of "''chargeback''" "Some ''admin''" "''fraud''" "Some ''admin''"]
  show ?thesis by blast
qed

section \<open>C6: the validity window at issuance\<close>

lemma generate_activation_code_Inr: "\<exists>code. generate_activation_code now_ms uuid_int = Inr code"
proof -
  obtain sid where sid: "generate_short_id now_ms uuid_int = Inr sid" "length sid = 11"
    using generate_short_id_ok by blast
  obtain encoded where e: "utf8_encode (code_points sid) = Inr encoded"
    using utf8_encode_ok [OF code_points_no_surrogate] by blast
  have l: "length (code_points sid) = 11"
    using sid(2) by (simp add: code_points_def)
  show ?thesis
    by (simp add: generate_activation_code_def sid(1) calculate_checksum_11 [OF l e])
qed

lemma add_days_Inr: "add_days now_valid n = Inr v \<Longrightarrow> v = now_valid + n * day_us"
  by (simp add: add_days_def split: if_splits)

lemma add_days_representable:
  "representable now_valid (Some n) \<Longrightarrow> add_days now_valid n = Inr (now_valid + n * day_us)"
  by (auto simp: add_days_def representable_def)

text \<open>The three assignments to \<^verbatim>\<open>days\<close> and the guard of the expiry, against the rule.\<close>

lemma resolve_days:
  assumes "p \<in> set [''monthly'', ''yearly'', ''lifetime'']"
  shows "(if \<not> not_days (if p = ''yearly'' \<and> not_days (if p = ''monthly'' \<and> not_days days0 then Some 31 else days0)
                         then Some 365
                         else (if p = ''monthly'' \<and> not_days days0 then Some 31 else days0))
             \<and> p \<noteq> ''lifetime''
          then map_sum id Some
                 (add_days now_valid
                    (the (if p = ''yearly'' \<and> not_days (if p = ''monthly'' \<and> not_days days0 then Some 31 else days0)
                          then Some 365
                          else (if p = ''monthly'' \<and> not_days days0 then Some 31 else days0))))
          else Inr None)
         = (case spec_duration p days0 of
              None \<Rightarrow> Inr None
            | Some n \<Rightarrow> map_sum id Some (add_days now_valid n))"
proof -
  from assms(1) consider "p = ''monthly''" | "p = ''yearly''" | "p = ''lifetime''"
    by auto
  then show ?thesis
  proof cases
    case 1
    then show ?thesis
      by (cases days0) (auto simp: spec_duration_def not_days_def)
  next
    case 2
    then show ?thesis
      by (cases days0) (auto simp: spec_duration_def not_days_def)
  next
    case 3
    then show ?thesis
      by (simp add: spec_duration_def)
  qed
qed

lemma generate_unfold:
  assumes em: "is_valid_email email"
      and p: "lower (strip plan) = p" "p \<in> set [''monthly'', ''yearly'', ''lifetime'']"
      and code: "generate_activation_code now_ms uuid_code = Inr code"
  shows "generate_license_with_email d plan email device_cap days_in user_hint now_valid now_issued now_ms uuid_code uuid_lic
     = (case (case spec_duration p (convert_days days_in) of
                None \<Rightarrow> Inr None
              | Some n \<Rightarrow> map_sum id Some (add_days now_valid n)) of
          Inl e \<Rightarrow> Inl (GenerationFailed e)
        | Inr valid_until \<Rightarrow>
            (case insert_license (licenses d)
                    \<lparr>l_license_id = ''LIC-'' @ upper (py_slice (uuid_hex uuid_lic) 0 8),
                      l_activation_code = code, l_email = email, l_plan = p,
                      l_device_limit = device_cap, l_issued_at = now_issued,
                      l_valid_until = valid_until, l_user_hint = user_hint,
                      l_status = ''active''\<rparr> of
               None \<Rightarrow> Inl DatabaseFailed
             | Some rows \<Rightarrow>
                 Inr (\<lparr>l_license_id = ''LIC-'' @ upper (py_slice (uuid_hex uuid_lic) 0 8),
                      l_activation_code = code, l_email = email, l_plan = p,
                      l_device_limit = device_cap, l_issued_at = now_issued,
                      l_valid_until = valid_until, l_user_hint = user_hint,
                      l_status = ''active''\<rparr>, d\<lparr>licenses := rows\<rparr>)))"
proof -
  note r = resolve_days [OF p(2), of "convert_days days_in" now_valid]
  show ?thesis
    unfolding generate_license_with_email_def Let_def p(1)
    using em p(2) by (simp only: r code if_True if_False not_True_eq_False not_not sum.case simp_thms)
qed

lemma generate_invalid_email:
  "\<not> is_valid_email email \<Longrightarrow>
   generate_license_with_email d plan email device_cap days_in user_hint now_valid now_issued now_ms uuid_code uuid_lic
     = Inl InvalidEmail"
  by (simp add: generate_license_with_email_def)

lemma generate_unknown_plan:
  "is_valid_email email \<Longrightarrow> lower (strip plan) \<notin> set [''monthly'', ''yearly'', ''lifetime''] \<Longrightarrow>
   generate_license_with_email d plan email device_cap days_in user_hint now_valid now_issued now_ms uuid_code uuid_lic
     = Inl UnknownPlan"
  by (simp add: generate_license_with_email_def Let_def)

lemma spec_duration_None: "(spec_duration p v = None) = (p = ''lifetime'')"
  by (cases v) (auto simp: spec_duration_def not_days_def)

lemma insert_license_Some: "insert_license rows l = Some rows' \<Longrightarrow> rows' = rows @ [l]"
  by (simp add: insert_license_def split: if_splits)

lemma generate_Inr:
  assumes g: "generate_license_with_email d plan email device_cap days_in user_hint now_valid now_issued now_ms uuid_code uuid_lic
              = Inr (row, d')"
  shows "l_plan row = lower (strip plan)"
    and "l_plan row \<in> set [''monthly'', ''yearly'', ''lifetime'']"
    and "l_issued_at row = now_issued"
    and "l_valid_until row
           = map_option (\<lambda>n. now_valid + n * day_us) (spec_duration (l_plan row) (convert_days days_in))"
    and "licenses d' = licenses d @ [row]"
proof -
  have em: "is_valid_email email"
    using g generate_invalid_email by fastforce
  have p: "lower (strip plan) \<in> set [''monthly'', ''yearly'', ''lifetime'']"
    using g generate_unknown_plan [OF em] by fastforce
  obtain code where code: "generate_activation_code now_ms uuid_code = Inr code"
    using generate_activation_code_Inr by blast
  note u = generate_unfold [OF em refl p code, of d device_cap days_in user_hint now_valid now_issued uuid_lic]
  let ?sd = "spec_duration (lower (strip plan)) (convert_days days_in)"
  obtain vu where vu: "(case ?sd of None \<Rightarrow> Inr None | Some n \<Rightarrow> map_sum id Some (add_days now_valid n)) = Inr vu"
    using g unfolding u by (cases "(case ?sd of None \<Rightarrow> Inr None | Some n \<Rightarrow> map_sum id Some (add_days now_valid n))") auto
  have vu_eq: "vu = map_option (\<lambda>n. now_valid + n * day_us) ?sd"
  proof (cases ?sd)
    case None
    with vu show ?thesis by simp
  next
    case (Some n)
    with vu obtain v where "add_days now_valid n = Inr v" "vu = Some v"
      by (cases "add_days now_valid n") auto
    with add_days_Inr [of now_valid n v] Some show ?thesis by simp
  qed
  let ?row = "\<lparr>l_license_id = ''LIC-'' @ upper (py_slice (uuid_hex uuid_lic) 0 8),
               l_activation_code = code, l_email = email, l_plan = lower (strip plan),
               l_device_limit = device_cap, l_issued_at = now_issued,
               l_valid_until = vu, l_user_hint = user_hint, l_status = ''active''\<rparr>"
  from g have g': "(case insert_license (licenses d) ?row of
                      None \<Rightarrow> Inl DatabaseFailed
                    | Some rows \<Rightarrow> Inr (?row, d\<lparr>licenses := rows\<rparr>)) = Inr (row, d')"
    unfolding u vu by simp
  then obtain rows where rows: "insert_license (licenses d) ?row = Some rows"
    and row: "row = ?row" and d': "d' = d\<lparr>licenses := rows\<rparr>"
    by (cases "insert_license (licenses d) ?row") auto
  show "l_plan row = lower (strip plan)" by (simp add: row)
  then show "l_plan row \<in> set [''monthly'', ''yearly'', ''lifetime'']" using p by simp
  show "l_issued_at row = now_issued" by (simp add: row)
  show "l_valid_until row
           = map_option (\<lambda>n. now_valid + n * day_us) (spec_duration (l_plan row) (convert_days days_in))"
    by (simp add: row vu_eq)
  show "licenses d' = licenses d @ [row]"
    using insert_license_Some [OF rows] by (simp add: d' row)
qed

lemma generate_succeeds:
  assumes em: "is_valid_email email"
      and p: "lower (strip plan) \<in> set [''monthly'', ''yearly'', ''lifetime'']"
      and rep: "representable now_valid (spec_duration (lower (strip plan)) (convert_days days_in))"
      and fresh: "list_all (\<lambda>r. l_license_id r \<noteq> ''LIC-'' @ upper (py_slice (uuid_hex uuid_lic) 0 8)
                              \<and> generate_activation_code now_ms uuid_code \<noteq> Inr (l_activation_code r))
                    (licenses d)"
  shows "\<exists>row d'. generate_license_with_email d plan email device_cap days_in user_hint now_valid now_issued now_ms
                    uuid_code uuid_lic = Inr (row, d')"
proof -
  obtain code where code: "generate_activation_code now_ms uuid_code = Inr code"
    using generate_activation_code_Inr by blast
  note u = generate_unfold [OF em refl p code, of d device_cap days_in user_hint now_valid now_issued uuid_lic]
  let ?sd = "spec_duration (lower (strip plan)) (convert_days days_in)"
  have "\<exists>vu. (case ?sd of None \<Rightarrow> Inr None | Some n \<Rightarrow> map_sum id Some (add_days now_valid n)) = Inr vu"
  proof (cases ?sd)
    case None
    then show ?thesis by simp
  next
    case (Some n)
    with rep have "add_days now_valid n = Inr (now_valid + n * day_us)"
      by (simp add: add_days_representable)
    with Some show ?thesis by simp
  qed
  then obtain vu where vu: "(case ?sd of None \<Rightarrow> Inr None | Some n \<Rightarrow> map_sum id Some (add_days now_valid n)) = Inr vu"
    by blast
  have "\<not> list_ex (\<lambda>r. l_license_id r = ''LIC-'' @ upper (py_slice (uuid_hex uuid_lic) 0 8)
                        \<or> l_activation_code r = code) (licenses d)"
    using fresh code by (auto simp: list_ex_iff list_all_iff)
  then show ?thesis
    unfolding u vu by (simp add: insert_license_def)
qed

text \<open>
  Claim C6 says that an explicit override of the duration wins and that the expiry is the
  issuance instant plus the resolved duration. A lifetime license issued with an override of
  30 days has no expiry. A monthly license issued with an override of 0 days, with the clock
  at 1000 when the expiry is computed and at 1500 when the row is written, is stored with
  \<^verbatim>\<open>issued_at\<close> 1500 and an expiry of 1000 plus 31 days: the override did not win, and the
  expiry is not the stored issuance instant plus any duration of whole days.
\<close>

theorem issuance_override_counterexample:
  "map_sum id (\<lambda>x. l_valid_until (fst x))
     (generate_license_with_email empty_db ''lifetime'' ''a@b.cc'' 5 (Days 30) None 1000 1500 7 8 9)
   = Inr None
   \<and> map_sum id (\<lambda>x. (l_issued_at (fst x), l_valid_until (fst x)))
     (generate_license_with_email empty_db ''monthly'' ''a@b.cc'' 5 (Days 0) None 1000 1500 7 8 9)
   = Inr (1500, Some (1000 + 31 * day_us))"
proof -
  have em: "is_valid_email ''a@b.cc''"
    by code_simp
  have p1: "lower (strip ''lifetime'') = ''lifetime''" and p2: "lower (strip ''monthly'') = ''monthly''"
    by code_simp+
  have m1: "lower (strip ''lifetime'') \<in> set [''monthly'', ''yearly'', ''lifetime'']"
    and m2: "lower (strip ''monthly'') \<in> set [''monthly'', ''yearly'', ''lifetime'']"
    unfolding p1 p2 by simp_all
  have s1: "spec_duration ''lifetime'' (convert_days (Days 30)) = None"
    and s2: "spec_duration ''monthly'' (convert_days (Days 0)) = Some 31"
    by (simp_all add: spec_duration_def convert_days_def not_days_def)
  have r1: "representable 1000 (spec_duration (lower (strip ''lifetime'')) (convert_days (Days 30)))"
    and r2: "representable 1000 (spec_duration (lower (strip ''monthly'')) (convert_days (Days 0)))"
    unfolding p1 p2 s1 s2
    by (simp_all add: representable_def day_us_def datetime_min_def datetime_max_def)
  have f: "list_all (\<lambda>r. l_license_id r \<noteq> ''LIC-'' @ upper (py_slice (uuid_hex 9) 0 8)
                              \<and> generate_activation_code 7 8 \<noteq> Inr (l_activation_code r))
                    (licenses empty_db)"
    by (simp add: empty_db_def)
  obtain row1 d1 where g1: "generate_license_with_email empty_db ''lifetime'' ''a@b.cc'' 5 (Days 30) None
      1000 1500 7 8 9 = Inr (row1, d1)"
    using generate_succeeds [OF em m1 r1 f] by blast
  obtain row2 d2 where g2: "generate_license_with_email empty_db ''monthly'' ''a@b.cc'' 5 (Days 0) None
      1000 1500 7 8 9 = Inr (row2, d2)"
    using generate_succeeds [OF em m2 r2 f] by blast
  have v1: "l_valid_until row1 = None"
    using generate_Inr(1,4) [OF g1] by (simp add: p1 s1)
  have v2: "l_valid_until row2 = Some (1000 + 31 * day_us)"
    using generate_Inr(1,4) [OF g2] by (simp add: p2 s2)
  have i2: "l_issued_at row2 = 1500"
    by (rule generate_Inr(3) [OF g2])
  show ?thesis
    by (simp add: g1 g2 v1 v2 i2)
qed

text \<open>
  Claim C6 as amended. Whenever issuance returns a license, its plan is the normalised plan,
  one of monthly, yearly and lifetime. Its expiry is the reading of the clock taken when the
  expiry is computed plus the duration of \<open>spec_duration\<close>: for a monthly or yearly plan an
  override that is present and not zero, else 31 or 365 days, never null; for a lifetime plan
  null, whatever the override. The stored \<^verbatim>\<open>issued_at\<close> is a second, later reading of the
  clock. Issuance does return a license when the email is well formed, the plan is known, the
  day count is representable and the new license id and activation code are not in the table.
\<close>

theorem issuance_validity:
  "(generate_license_with_email d plan email device_cap days_in user_hint now_valid now_issued now_ms uuid_code uuid_lic
      = Inr (row, d') \<longrightarrow>
      l_plan row = lower (strip plan)
      \<and> (l_plan row = ''monthly'' \<or> l_plan row = ''yearly'' \<or> l_plan row = ''lifetime'')
      \<and> l_issued_at row = now_issued
      \<and> l_valid_until row
          = map_option (\<lambda>n. now_valid + n * day_us)
              (spec_duration (l_plan row) (convert_days days_in))
      \<and> (l_plan row = ''lifetime'' \<longrightarrow> l_valid_until row = None)
      \<and> (l_plan row = ''monthly'' \<or> l_plan row = ''yearly'' \<longrightarrow> l_valid_until row \<noteq> None)
      \<and> (l_plan row = ''monthly'' \<and> not_days (convert_days days_in) \<longrightarrow>
            l_valid_until row = Some (now_valid + 31 * day_us))
      \<and> (l_plan row = ''yearly'' \<and> not_days (convert_days days_in) \<longrightarrow>
            l_valid_until row = Some (now_valid + 365 * day_us))
      \<and> (\<forall>n. (l_plan row = ''monthly'' \<or> l_plan row = ''yearly'') \<and> days_in = Days n \<and> n \<noteq> 0 \<longrightarrow>
            l_valid_until row = Some (now_valid + n * day_us))
      \<and> licenses d' = licenses d @ [row])
   \<and> (is_valid_email email
       \<and> lower (strip plan) \<in> set [''monthly'', ''yearly'', ''lifetime'']
       \<and> representable now_valid (spec_duration (lower (strip plan)) (convert_days days_in))
       \<and> list_all (\<lambda>r. l_license_id r \<noteq> ''LIC-'' @ upper (py_slice (uuid_hex uuid_lic) 0 8)
                        \<and> generate_activation_code now_ms uuid_code \<noteq> Inr (l_activation_code r))
            (licenses d)
       \<longrightarrow> (\<exists>row d'. generate_license_with_email d plan email device_cap days_in user_hint now_valid now_issued now_ms
                        uuid_code uuid_lic = Inr (row, d')))"
proof (intro conjI impI)
  assume g: "generate_license_with_email d plan email device_cap days_in user_hint now_valid now_issued now_ms uuid_code uuid_lic
      = Inr (row, d')"
  note r = generate_Inr [OF g]
  show "l_plan row = lower (strip plan)" by (rule r(1))
  show pl: "l_plan row = ''monthly'' \<or> l_plan row = ''yearly'' \<or> l_plan row = ''lifetime''"
    using r(2) by auto
  show "l_issued_at row = now_issued" by (rule r(3))
  show "l_valid_until row
          = map_option (\<lambda>n. now_valid + n * day_us)
              (spec_duration (l_plan row) (convert_days days_in))"
    using r(4) by (simp add: r(3))
  show "licenses d' = licenses d @ [row]" by (rule r(5))
  show "l_valid_until row = None" if "l_plan row = ''lifetime''"
    using r(4) that by (simp add: spec_duration_def)
  show "l_valid_until row \<noteq> None" if "l_plan row = ''monthly'' \<or> l_plan row = ''yearly''"
    using r(4) that by (auto simp: spec_duration_None)
  show "l_valid_until row = Some (now_valid + 31 * day_us)"
    if "l_plan row = ''monthly'' \<and> not_days (convert_days days_in)"
    using r(4) that by (simp add: spec_duration_def)
  show "l_valid_until row = Some (now_valid + 365 * day_us)"
    if "l_plan row = ''yearly'' \<and> not_days (convert_days days_in)"
    using r(4) that by (simp add: spec_duration_def)
  show "\<forall>n. (l_plan row = ''monthly'' \<or> l_plan row = ''yearly'') \<and> days_in = Days n \<and> n \<noteq> 0 \<longrightarrow>
            l_valid_until row = Some (now_valid + n * day_us)"
    using r(4) by (auto simp: spec_duration_def convert_days_def not_days_def)
next
  assume a: "is_valid_email email
       \<and> lower (strip plan) \<in> set [''monthly'', ''yearly'', ''lifetime'']
       \<and> representable now_valid (spec_duration (lower (strip plan)) (convert_days days_in))
       \<and> list_all (\<lambda>r. l_license_id r \<noteq> ''LIC-'' @ upper (py_slice (uuid_hex uuid_lic) 0 8)
                        \<and> generate_activation_code now_ms uuid_code \<noteq> Inr (l_activation_code r))
            (licenses d)"
  then show "\<exists>row d'. generate_license_with_email d plan email device_cap days_in user_hint now_valid now_issued now_ms
                        uuid_code uuid_lic = Inr (row, d')"
    using generate_succeeds by blast
qed

theorem issuance_validity_witness:
  "map_sum id (\<lambda>x. (l_plan (fst x), l_issued_at (fst x), l_valid_until (fst x)))
     (generate_license_with_email empty_db '' Monthly '' ''a@b.cc'' 5 NoDays None 1000 1500 7 8 9)
   = Inr (''monthly'', 1500, Some (1000 + 31 * day_us))"
proof -
  have em: "is_valid_email ''a@b.cc''"
    by code_simp
  have p: "lower (strip '' Monthly '') = ''monthly''"
    by code_simp
  have m: "lower (strip '' Monthly '') \<in> set [''monthly'', ''yearly'', ''lifetime'']"
    unfolding p by simp
  have nd: "not_days (convert_days NoDays)"
    by (simp add: not_days_def convert_days_def)
  have r: "representable 1000 (spec_duration (lower (strip '' Monthly '')) (convert_days NoDays))"
    unfolding p
    by (simp add: spec_duration_def not_days_def convert_days_def representable_def day_us_def
        datetime_min_def datetime_max_def)
  have f: "list_all (\<lambda>r. l_license_id r \<noteq> ''LIC-'' @ upper (py_slice (uuid_hex 9) 0 8)
                              \<and> generate_activation_code 7 8 \<noteq> Inr (l_activation_code r))
                    (licenses empty_db)"
    by (simp add: empty_db_def)
  from issuance_validity [of empty_db "'' Monthly ''" "''a@b.cc''" 5 NoDays None 1000 1500 7 8 9] em m r f
  obtain row d' where g: "generate_license_with_email empty_db '' Monthly '' ''a@b.cc'' 5 NoDays None
      1000 1500 7 8 9 = Inr (row, d')"
    by blast
  from issuance_validity [of empty_db "'' Monthly ''" "''a@b.cc''" 5 NoDays None 1000 1500 7 8 9 row d'] g
  have "l_plan row = lower (strip '' Monthly '')"
    and "l_plan row = ''monthly'' \<and> not_days (convert_days NoDays) \<longrightarrow>
            l_valid_until row = Some (1000 + 31 * day_us)"
    and "l_issued_at row = 1500"
    by blast+
  with p nd have "l_plan row = ''monthly''" "l_valid_until row = Some (1000 + 31 * day_us)"
    "l_issued_at row = 1500"
    by simp_all
  then show ?thesis
    by (simp add: g)
qed

end
